theory Spec2Isabelle
  imports Complex_Main
begin

section \<open>Affinity propagation (affprop/temp.py): data model\<close>

text \<open>
  The module works on numpy arrays of floating-point numbers. The embedding reads a
  float as a \<^typ>\<open>real\<close> (no rounding, no NaN, no infinities), a one-dimensional array
  as a list, a two-dimensional array as the list of its rows and the three-dimensional
  history arrays of shape \<open>(iterations, n, n)\<close> as the list of their \<open>n \<times> n\<close> slices.
  numpy arrays are rectangular; the theorems state the shapes they rely on. The
  empty list of rows stands for the \<open>0 \<times> 0\<close> array.

  Exceptions are values: a function that may raise returns \<open>error + 'a\<close>, with
  \<open>Inl\<close> for the exception.
\<close>

datatype error =
    ValueError string
  | NameError string
  | TypeError string
  | IndexError string

type_synonym vec = "real list"
type_synonym matrix = "real list list"
type_synonym array3 = "real list list list"

text \<open>Sequencing of two computations that may raise.\<close>

definition and_then :: "error + 'a \<Rightarrow> ('a \<Rightarrow> error + 'b) \<Rightarrow> error + 'b" where
  "and_then m f = (case m of Inl e \<Rightarrow> Inl e | Inr x \<Rightarrow> f x)"

text \<open>
  A Python number passed as a parameter: \<open>type(x) != int\<close> tells the two apart,
  comparisons read the numeric value.
\<close>

datatype pynum = PyInt int | PyFloat real

fun num_val :: "pynum \<Rightarrow> real" where
  "num_val (PyInt i) = of_int i"
| "num_val (PyFloat x) = x"

fun is_int :: "pynum \<Rightarrow> bool" where
  "is_int (PyInt i) = True"
| "is_int (PyFloat x) = False"

section \<open>numpy and scipy primitives\<close>

text \<open>\<open>scipy.spatial.distance.cdist(xa, xb, "euclidean")\<close>.\<close>

definition euclidean :: "vec \<Rightarrow> vec \<Rightarrow> real" where
  "euclidean p q = sqrt (sum_list (map2 (\<lambda>a b. (a - b)\<^sup>2) p q))"

definition cdist :: "vec list \<Rightarrow> vec list \<Rightarrow> matrix" where
  "cdist xa xb = map (\<lambda>p. map (\<lambda>q. euclidean p q) xb) xa"

text \<open>\<open>np.min\<close> of all entries: raises on a zero-size array.\<close>

fun np_min :: "real list \<Rightarrow> error + real" where
  "np_min [] = Inl (ValueError ''zero-size array to reduction operation minimum which has no identity'')"
| "np_min (x # xs) = Inr (fold min xs x)"

text \<open>
  \<open>np.median\<close> of all entries: the middle element of the sorted values, the mean of
  the two middle ones when their number is even.
\<close>

definition np_median :: "real list \<Rightarrow> real" where
  "np_median xs =
     (let s = sort xs; n = length s
      in if even n then (s ! (n div 2 - 1) + s ! (n div 2)) / 2 else s ! (n div 2))"

text \<open>\<open>np.fill_diagonal(m, v)\<close>: entry \<open>(i, i)\<close> of every row \<open>i\<close> becomes \<open>v\<close>.\<close>

definition fill_diagonal :: "matrix \<Rightarrow> real \<Rightarrow> matrix" where
  "fill_diagonal m v = map (\<lambda>i. (m ! i)[i := v]) [0..<length m]"

section \<open>\<open>calc_similarity_matrix\<close>\<close>

text \<open>
  \<open>neg_euc_dist = -cdist(mydata, mydata, "euclidean") ** 2\<close>: the power binds tighter
  than the sign.
\<close>

definition neg_euc_dist :: "vec list \<Rightarrow> matrix" where
  "neg_euc_dist mydata = map (map (\<lambda>x. - (x\<^sup>2))) (cdist mydata mydata)"

text \<open>
  The preference is taken over the whole matrix \<open>neg_euc_dist\<close>, before its diagonal is
  overwritten. On the empty point set \<open>np.min\<close> raises, while \<open>np.median\<close> gives a value
  that is written nowhere.
\<close>

definition calc_similarity_matrix :: "vec list \<Rightarrow> pynum \<Rightarrow> error + matrix" where
  "calc_similarity_matrix mydata num_cluster_pref =
     (let ned = neg_euc_dist mydata
      in and_then
           (if num_val num_cluster_pref = 1 then np_min (concat ned)
            else Inr (np_median (concat ned)))
           (\<lambda>pref. Inr (fill_diagonal ned pref)))"

subsection \<open>The quantities the specification names\<close>

text \<open>The squared Euclidean distance \<open>\<parallel>p - q\<parallel>\<^sup>2\<close> of two points of the same dimension.\<close>

definition sq_euclidean :: "vec \<Rightarrow> vec \<Rightarrow> real" where
  "sq_euclidean p q = sum_list (map2 (\<lambda>a b. (a - b)\<^sup>2) p q)"

text \<open>The off-diagonal entries of a square matrix, row by row.\<close>

definition off_diagonal :: "matrix \<Rightarrow> real list" where
  "off_diagonal m =
     concat (map (\<lambda>i. map (\<lambda>k. m ! i ! k) (filter (\<lambda>k. k \<noteq> i) [0..<length m])) [0..<length m])"

text \<open>The matrix of negated squared distances, zero on its diagonal.\<close>

definition neg_sq_dist :: "vec list \<Rightarrow> matrix" where
  "neg_sq_dist pts = map (\<lambda>p. map (\<lambda>q. - sq_euclidean p q) pts) pts"

section \<open>Array primitives\<close>

text \<open>
  Indexing \<open>xs[i]\<close> with a Python integer: a negative index counts from the end, an index
  outside the array raises \<open>IndexError\<close>.
\<close>

definition norm_index :: "nat \<Rightarrow> int \<Rightarrow> error + nat" where
  "norm_index len i =
     (let j = (if i < 0 then int len + i else i)
      in if 0 \<le> j \<and> j < int len then Inr (nat j)
         else Inl (IndexError ''index is out of bounds''))"

definition item :: "'a list \<Rightarrow> int \<Rightarrow> error + 'a" where
  "item xs i = and_then (norm_index (length xs) i) (\<lambda>j. Inr (xs ! j))"

text \<open>\<open>arr[t, i, k]\<close>.\<close>

definition item3 :: "array3 \<Rightarrow> int \<Rightarrow> int \<Rightarrow> int \<Rightarrow> error + real" where
  "item3 arr t i k =
     and_then (item arr t) (\<lambda>m. and_then (item m i) (\<lambda>row. item row k))"

text \<open>\<open>arr[t, i, k] = v\<close>.\<close>

definition set_item3 :: "array3 \<Rightarrow> int \<Rightarrow> int \<Rightarrow> int \<Rightarrow> real \<Rightarrow> error + array3" where
  "set_item3 arr t i k v =
     and_then (norm_index (length arr) t) (\<lambda>t'.
     and_then (norm_index (length (arr ! t')) i) (\<lambda>i'.
     and_then (norm_index (length (arr ! t' ! i')) k) (\<lambda>k'.
       Inr (arr[t' := (arr ! t')[i' := (arr ! t' ! i')[k' := v]]]))))"

text \<open>\<open>m.shape[1]\<close> of a two-dimensional array.\<close>

definition ncols :: "'a list list \<Rightarrow> nat" where
  "ncols m = (case m of [] \<Rightarrow> 0 | row # rows \<Rightarrow> length row)"

text \<open>\<open>arr[t, :, k]\<close>: column \<open>k\<close> of slice \<open>t\<close>.\<close>

definition column :: "array3 \<Rightarrow> int \<Rightarrow> int \<Rightarrow> error + vec" where
  "column arr t k =
     and_then (item arr t) (\<lambda>m.
     and_then (norm_index (ncols m) k) (\<lambda>j. Inr (map (\<lambda>row. row ! j) m)))"

text \<open>
  \<open>v[mask] = x\<close> with a boolean mask: the mask must have the length of \<open>v\<close>.
\<close>

definition mask_assign :: "vec \<Rightarrow> bool list \<Rightarrow> real \<Rightarrow> error + vec" where
  "mask_assign v bs x =
     (if length bs = length v then Inr (map2 (\<lambda>y b. if b then x else y) v bs)
      else Inl (IndexError ''boolean index did not match indexed array''))"

text \<open>\<open>np.dot\<close> of two one-dimensional arrays.\<close>

definition np_dot :: "vec \<Rightarrow> vec \<Rightarrow> error + real" where
  "np_dot xs ys =
     (if length xs = length ys then Inr (sum_list (map2 (*) xs ys))
      else Inl (ValueError ''shapes not aligned''))"

text \<open>
  An elementwise operation on two arrays of the same shape. On operands of different
  shapes numpy broadcasts where the shapes allow it and raises \<open>ValueError\<close> where they
  do not; the model has the second case only.
\<close>

definition same_shape :: "matrix \<Rightarrow> matrix \<Rightarrow> bool" where
  "same_shape a b = (map length a = map length b)"

definition elementwise :: "(real \<Rightarrow> real \<Rightarrow> real) \<Rightarrow> matrix \<Rightarrow> matrix \<Rightarrow> error + matrix" where
  "elementwise f a b =
     (if same_shape a b then Inr (map2 (map2 f) a b)
      else Inl (ValueError ''operands could not be broadcast together''))"

text \<open>\<open>arr[t] = m\<close>: the value must have the shape of the slice.\<close>

definition set_item :: "array3 \<Rightarrow> int \<Rightarrow> matrix \<Rightarrow> error + array3" where
  "set_item arr t m =
     and_then (norm_index (length arr) t) (\<lambda>t'.
       if same_shape (arr ! t') m then Inr (arr[t' := m])
       else Inl (ValueError ''could not broadcast input array''))"

text \<open>\<open>np.max\<close> and \<open>np.argmax\<close> of a one-dimensional array; both raise on an empty one.
  \<open>np.argmax\<close> returns the first position of the maximum.\<close>

fun np_max :: "real list \<Rightarrow> error + real" where
  "np_max [] = Inl (ValueError ''zero-size array to reduction operation maximum which has no identity'')"
| "np_max (x # xs) = Inr (fold max xs x)"

fun argmax_scan :: "real list \<Rightarrow> nat \<Rightarrow> nat \<Rightarrow> real \<Rightarrow> nat" where
  "argmax_scan [] j best v = best"
| "argmax_scan (x # xs) j best v =
     (if v < x then argmax_scan xs (Suc j) j x else argmax_scan xs (Suc j) best v)"

fun np_argmax :: "real list \<Rightarrow> error + nat" where
  "np_argmax [] = Inl (ValueError ''attempt to get argmax of an empty sequence'')"
| "np_argmax (x # xs) = Inr (argmax_scan xs 1 0 x)"

text \<open>A reduction along axis 1: one value per row; the \<open>0 \<times> 0\<close> array has nothing to reduce.\<close>

fun each_row :: "('a list \<Rightarrow> error + 'b) \<Rightarrow> 'a list list \<Rightarrow> error + 'b list" where
  "each_row f [] = Inr []"
| "each_row f (row # rows) =
     (case f row of
        Inl e \<Rightarrow> Inl e
      | Inr x \<Rightarrow> (case each_row f rows of Inl e \<Rightarrow> Inl e | Inr xs \<Rightarrow> Inr (x # xs)))"

definition axis1 :: "(real list \<Rightarrow> error + 'b) \<Rightarrow> matrix \<Rightarrow> error + 'b list" where
  "axis1 f m = (if m = [] then and_then (f []) (\<lambda>x. Inr []) else each_row f m)"

text \<open>\<open>m[:, i] = v\<close>: the vector must have one entry per row.\<close>

definition set_column :: "matrix \<Rightarrow> nat \<Rightarrow> vec \<Rightarrow> error + matrix" where
  "set_column m i v =
     (if length v = length m then Inr (map2 (\<lambda>row x. row[i := x]) m v)
      else Inl (ValueError ''could not broadcast input array''))"

definition zeros2 :: "nat \<Rightarrow> nat \<Rightarrow> matrix" where
  "zeros2 r c = replicate r (replicate c 0)"

definition zeros3 :: "nat \<Rightarrow> nat \<Rightarrow> nat \<Rightarrow> array3" where
  "zeros3 t r c = replicate t (zeros2 r c)"

text \<open>A \<open>for\<close> loop over a range whose body updates a state and may raise.\<close>

fun for_each :: "nat list \<Rightarrow> (nat \<Rightarrow> 's \<Rightarrow> error + 's) \<Rightarrow> 's \<Rightarrow> error + 's" where
  "for_each [] body s = Inr s"
| "for_each (x # xs) body s =
     (case body x s of Inl e \<Rightarrow> Inl e | Inr s' \<Rightarrow> for_each xs body s')"

section \<open>\<open>init_r_array\<close>\<close>

text \<open>\<open>s_matrix - s_matrix.max(axis=1)[:, None]\<close>: each row minus its own maximum.\<close>

definition init_r_array :: "matrix \<Rightarrow> error + matrix" where
  "init_r_array s_matrix =
     and_then (axis1 np_max s_matrix) (\<lambda>row_max.
       Inr (map2 (\<lambda>row m. map (\<lambda>x. x - m) row) s_matrix row_max))"

section \<open>\<open>a_array_update\<close>\<close>

text \<open>
  The body of the two nested loops: the entry \<open>(i, k)\<close> of slice \<open>niter\<close> is written in
  place, from slice \<open>niter - 1\<close> of both arrays.
\<close>

definition a_entry :: "int \<Rightarrow> int \<Rightarrow> array3 \<Rightarrow> real \<Rightarrow> nat \<Rightarrow> nat \<Rightarrow> array3 \<Rightarrow> error + array3" where
  "a_entry num_data_pts niter r_array damp_c i k a_array =
     (if i \<noteq> k then
        and_then (column r_array (niter - 1) (int k)) (\<lambda>col.
        and_then (mask_assign ((replicate (nat num_data_pts) 1)[k := 0, i := 0])
                    (map (\<lambda>x. x < 0) col) 0) (\<lambda>temp_vec.
        and_then (np_dot col temp_vec) (\<lambda>a_ik_sum.
        and_then (item3 r_array (niter - 1) (int k) (int k)) (\<lambda>r_kk.
        and_then (np_min [r_kk + a_ik_sum, 0]) (\<lambda>update_term.
        and_then (item3 a_array (niter - 1) (int i) (int k)) (\<lambda>a_prev.
          set_item3 a_array niter (int i) (int k)
            (damp_c * update_term + (1 - damp_c) * a_prev)))))))
      else
        and_then (column r_array (niter - 1) (int k)) (\<lambda>col.
        and_then (mask_assign ((replicate (nat num_data_pts) 1)[k := 0])
                    (map (\<lambda>x. x < 0) col) 0) (\<lambda>temp_vec.
        and_then (np_dot col temp_vec) (\<lambda>a_ik_sum.
        and_then (item3 a_array (niter - 1) (int i) (int k)) (\<lambda>a_prev.
          set_item3 a_array niter (int i) (int k)
            (damp_c * a_ik_sum + (1 - damp_c) * a_prev))))))"

text \<open>
  The function returns \<open>a_array[niter]\<close>; the second component is the array it has
  written into.
\<close>

definition a_array_update :: "int \<Rightarrow> int \<Rightarrow> array3 \<Rightarrow> real \<Rightarrow> array3 \<Rightarrow> error + matrix \<times> array3" where
  "a_array_update num_data_pts niter r_array damp_c a_array =
     and_then
       (for_each [0..<nat num_data_pts]
          (\<lambda>i. for_each [0..<nat num_data_pts]
                 (\<lambda>k. a_entry num_data_pts niter r_array damp_c i k))
          a_array)
       (\<lambda>a_array'. and_then (item a_array' niter) (\<lambda>m. Inr (m, a_array')))"

section \<open>\<open>r_array_update\<close>\<close>

text \<open>
  Column \<open>i\<close> of \<open>row_max\<close> receives, for every row, the maximum of
  \<open>s_a_array_sum\<close> over the columns other than \<open>i\<close>.
\<close>

definition row_max_column :: "matrix \<Rightarrow> nat \<Rightarrow> nat \<Rightarrow> matrix \<Rightarrow> error + matrix" where
  "row_max_column s_a_array_sum n i row_max =
     and_then
       (axis1 np_max (map (\<lambda>row. map (\<lambda>k. row ! k) (filter (\<lambda>k. k \<noteq> i) [0..<n])) s_a_array_sum))
       (\<lambda>v. set_column row_max i v)"

definition r_array_update :: "int \<Rightarrow> array3 \<Rightarrow> matrix \<Rightarrow> real \<Rightarrow> array3 \<Rightarrow> error + matrix \<times> array3" where
  "r_array_update niter a_array s_matrix damp_c r_array =
     and_then (item a_array niter) (\<lambda>a_t.
     and_then (elementwise (+) a_t s_matrix) (\<lambda>s_a_array_sum.
     let n = ncols s_a_array_sum in
     and_then (for_each [0..<n] (row_max_column s_a_array_sum n) (zeros2 n n)) (\<lambda>row_max.
     and_then (elementwise (-) s_matrix row_max) (\<lambda>update_term.
     and_then (item r_array (niter - 1)) (\<lambda>r_prev.
     and_then (elementwise (\<lambda>u r. damp_c * u + (1 - damp_c) * r) update_term r_prev) (\<lambda>r_t.
     and_then (set_item r_array niter r_t) (\<lambda>r_array'.
     and_then (item r_array' niter) (\<lambda>m. Inr (m, r_array')))))))))"

section \<open>Calls through the module namespace\<close>

text \<open>
  Python looks a function name up when the call is made: a name that the module does
  not bind raises \<open>NameError\<close>, a function called with another number of arguments than
  it declares raises \<open>TypeError\<close>. A namespace maps the names of array-valued functions to
  what they do on a list of arguments.
\<close>

datatype arg = Num pynum | Array2 matrix | Array3 array3

type_synonym callable = "arg list \<Rightarrow> error + matrix"
type_synonym namespace = "string \<Rightarrow> callable option"

definition call :: "namespace \<Rightarrow> string \<Rightarrow> arg list \<Rightarrow> error + matrix" where
  "call g f args = (case g f of None \<Rightarrow> Inl (NameError f) | Some fn \<Rightarrow> fn args)"

text \<open>
  The four array-valued functions that \<open>temp.py\<close> defines, as callables. The first test
  is the arity check of the call; the last case stands for arguments of another kind
  than the body can work on.
\<close>

definition call_calc_similarity_matrix :: callable where
  "call_calc_similarity_matrix args =
     (if length args \<noteq> 1 \<and> length args \<noteq> 2
      then Inl (TypeError ''calc_similarity_matrix() takes from 1 to 2 positional arguments'')
      else case args of
             [Array2 mydata] \<Rightarrow> calc_similarity_matrix mydata (PyInt 1)
           | [Array2 mydata, Num num_cluster_pref] \<Rightarrow> calc_similarity_matrix mydata num_cluster_pref
           | _ \<Rightarrow> Inl (TypeError ''calc_similarity_matrix(): unsupported argument''))"

definition call_init_r_array :: callable where
  "call_init_r_array args =
     (if length args \<noteq> 1
      then Inl (TypeError ''init_r_array() takes 1 positional argument'')
      else case args of
             [Array2 s_matrix] \<Rightarrow> init_r_array s_matrix
           | _ \<Rightarrow> Inl (TypeError ''init_r_array(): unsupported argument''))"

definition call_a_array_update :: callable where
  "call_a_array_update args =
     (if length args \<noteq> 5
      then Inl (TypeError ''a_array_update() takes 5 positional arguments'')
      else case args of
             [Num (PyInt num_data_pts), Num (PyInt niter), Array3 r_array, Num damp_c, Array3 a_array] \<Rightarrow>
               and_then (a_array_update num_data_pts niter r_array (num_val damp_c) a_array)
                 (\<lambda>(m, a_array'). Inr m)
           | _ \<Rightarrow> Inl (TypeError ''a_array_update(): unsupported argument''))"

definition call_r_array_update :: callable where
  "call_r_array_update args =
     (if length args \<noteq> 5
      then Inl (TypeError ''r_array_update() takes 5 positional arguments'')
      else case args of
             [Num (PyInt niter), Array3 a_array, Array2 s_matrix, Num damp_c, Array3 r_array] \<Rightarrow>
               and_then (r_array_update niter a_array s_matrix (num_val damp_c) r_array)
                 (\<lambda>(m, r_array'). Inr m)
           | _ \<Rightarrow> Inl (TypeError ''r_array_update(): unsupported argument''))"

text \<open>
  The namespace of \<open>temp.py\<close>, as far as \<open>afprop_vec2\<close> looks its helpers up in it: the
  functions that the module defines. (What the module imports is applied directly where
  the functions above use it.)
\<close>

definition temp_module :: namespace where
  "temp_module f =
     (if f = ''calc_similarity_matrix'' then Some call_calc_similarity_matrix
      else if f = ''init_r_array'' then Some call_init_r_array
      else if f = ''a_array_update'' then Some call_a_array_update
      else if f = ''r_array_update'' then Some call_r_array_update
      else None)"

section \<open>\<open>afprop_vec2\<close>\<close>

text \<open>The parameter checks (lines 76 to 89), in the order of the source; \<open>None\<close> when all pass.\<close>

definition check_parameters :: "pynum \<Rightarrow> pynum \<Rightarrow> pynum \<Rightarrow> pynum \<Rightarrow> error option" where
  "check_parameters num_cluster_pref iterations damp_c num_stable_iters =
     (if num_val num_cluster_pref \<noteq> 1 \<and> num_val num_cluster_pref \<noteq> 2
      then Some (ValueError ''Enter valid indication (1 or 2) of cluster number preference.'')
      else if num_val iterations < 1 \<or> \<not> is_int iterations
      then Some (ValueError ''Enter a valid number of iterations.'')
      else if num_val damp_c \<le> 0 \<or> num_val damp_c > 1
      then Some (ValueError ''Enter a valid damping constant.'')
      else if num_val num_stable_iters < 1
              \<or> num_val num_stable_iters > num_val iterations
              \<or> \<not> is_int num_stable_iters
      then Some (ValueError ''Enter a valid number of iterations to check for stability.'')
      else None)"

text \<open>The value of a parameter that has passed \<open>type(x) != int\<close>.\<close>

fun int_val :: "pynum \<Rightarrow> int" where
  "int_val (PyInt i) = i"
| "int_val (PyFloat x) = \<lfloor>x\<rfloor>"

text \<open>
  The variables of the iteration loop: \<open>a_history\<close> and \<open>r_history\<close> hold the arrays
  \<open>a_array\<close> and \<open>r_array\<close>; \<open>clusters_prev\<close> and \<open>iter_stability\<close> start as arrays of
  zeros; \<open>stdout\<close> collects what is printed. The source also sets \<open>clusters_prev_2\<close>,
  which it never reads.
\<close>

record loop_state =
  a_history :: array3
  r_history :: array3
  clusters_prev :: "nat list"
  iter_stability :: "real list"
  stdout :: "string list"

text \<open>
  The two tuples the function returns: with the value of \<open>plt.show()\<close> in front when the
  data is two-dimensional, without it otherwise. The fields are \<open>clusters\<close>,
  \<open>exemplars\<close>, \<open>num_clusters\<close> and \<open>final_iter\<close>.
\<close>

datatype result =
    Plotted "nat list" "nat list" nat nat
  | Unplotted "nat list" "nat list" nat nat

fun clusters_of :: "result \<Rightarrow> nat list" where
  "clusters_of (Plotted c e n f) = c"
| "clusters_of (Unplotted c e n f) = c"

fun exemplars_of :: "result \<Rightarrow> nat list" where
  "exemplars_of (Plotted c e n f) = e"
| "exemplars_of (Unplotted c e n f) = e"

fun num_clusters_of :: "result \<Rightarrow> nat" where
  "num_clusters_of (Plotted c e n f) = n"
| "num_clusters_of (Unplotted c e n f) = n"

fun final_iter_of :: "result \<Rightarrow> nat" where
  "final_iter_of (Plotted c e n f) = f"
| "final_iter_of (Unplotted c e n f) = f"

datatype step = Return result | Continue loop_state

text \<open>
  What the function leaves behind: the returned value (\<open>None\<close> when the loop runs to its
  end and the function falls off its last line) and the printed lines.
\<close>

record outcome =
  returned :: "result option"
  printed :: "string list"

text \<open>The set-up before the loop (lines 92 to 119): similarity matrix, history arrays, trackers.\<close>

definition prepare :: "namespace \<Rightarrow> vec list \<Rightarrow> pynum \<Rightarrow> nat \<Rightarrow> error + matrix \<times> loop_state" where
  "prepare g mydata num_cluster_pref iterations =
     (let num_data_pts = length mydata in
      and_then (call g ''create_s_metric_matrix''
                  [Array2 mydata, Num (PyInt (int num_data_pts))]) (\<lambda>s_metric_matrix.
      and_then (call g ''create_s_matrix''
                  [Array2 mydata, Num (PyInt (int num_data_pts)), Num num_cluster_pref,
                   Array2 s_metric_matrix]) (\<lambda>s_matrix.
      and_then (call g ''init_r_array''
                  [Num (PyInt (int num_data_pts)), Array2 s_matrix]) (\<lambda>r_0.
      and_then (set_item (zeros3 iterations num_data_pts num_data_pts) 0 r_0) (\<lambda>r_array_0.
        Inr (s_matrix,
             \<lparr>a_history = zeros3 iterations num_data_pts num_data_pts,
              r_history = r_array_0,
              clusters_prev = replicate num_data_pts 0,
              iter_stability = replicate iterations 0,
              stdout = []\<rparr>))))))"

text \<open>
  The two update statements of an iteration (lines 124 to 127), on the pair of history
  arrays. The functions of the module write slice \<open>niter\<close> of the array they are given
  and return that slice; the assignment stores the returned slice at the same place, so
  the array after the statement is the one given with slice \<open>niter\<close> replaced.
\<close>

definition update_arrays ::
  "namespace \<Rightarrow> nat \<Rightarrow> matrix \<Rightarrow> pynum \<Rightarrow> nat \<Rightarrow> array3 \<times> array3 \<Rightarrow> error + array3 \<times> array3" where
  "update_arrays g num_data_pts s_matrix damp_c niter = (\<lambda>(a_arr, r_arr).
     and_then (call g ''a_array_update''
                 [Num (PyInt (int num_data_pts)), Num (PyInt (int niter)), Array3 r_arr,
                  Num damp_c, Array3 a_arr]) (\<lambda>a_t.
     and_then (set_item a_arr (int niter) a_t) (\<lambda>a_arr'.
     and_then (call g ''r_array_update''
                 [Num (PyInt (int num_data_pts)), Num (PyInt (int niter)), Array3 a_arr',
                  Array2 s_matrix, Num damp_c, Array3 r_arr]) (\<lambda>r_t.
     and_then (set_item r_arr (int niter) r_t) (\<lambda>r_arr'.
       Inr (a_arr', r_arr'))))))"

text \<open>\<open>clusters = np.argmax(r_array[niter] + a_array[niter], axis=1)\<close> (lines 129 to 134).\<close>

definition cluster_assignment :: "nat \<Rightarrow> array3 \<times> array3 \<Rightarrow> error + nat list" where
  "cluster_assignment niter = (\<lambda>(a_arr, r_arr).
     and_then (item r_arr (int niter)) (\<lambda>r_t.
     and_then (item a_arr (int niter)) (\<lambda>a_t.
     and_then (elementwise (+) r_t a_t) (\<lambda>r_s_sum_array.
       axis1 np_argmax r_s_sum_array))))"

text \<open>The line that the last iteration prints.\<close>

definition stability_message :: string where
  "stability_message = ''Stability not acheived. Consider reducing num_stable_iters.''"

text \<open>
  The rest of the iteration (lines 135 to 182): the centers, the stability flag of this
  iteration, the test on the slice \<open>iter_stability[niter - num_stable_iters : niter]\<close>,
  and either the return or the message of the last iteration and the new
  \<open>clusters_prev\<close>. The scatter plot is not modelled; \<open>is_center\<close> serves it alone.
\<close>

definition track :: "vec list \<Rightarrow> nat \<Rightarrow> nat \<Rightarrow> nat \<Rightarrow> nat list \<Rightarrow> loop_state \<Rightarrow> step" where
  "track mydata iterations num_stable_iters niter clusters st =
     (let centers = filter (\<lambda>i. clusters ! i = i) [0..<length mydata];
          flags = (if clusters = clusters_prev st then (iter_stability st)[niter := 1]
                   else iter_stability st)
      in if niter > num_stable_iters
            \<and> (\<forall>x \<in> set (take num_stable_iters (drop (niter - num_stable_iters) flags)). x = 1)
         then
           (let exemplars = centers;
                num_clusters = length (remdups clusters);
                final_iter = niter + 1
            in if ncols mydata = 2
               then Return (Plotted clusters exemplars num_clusters final_iter)
               else Return (Unplotted clusters exemplars num_clusters final_iter))
         else
           Continue (st\<lparr>iter_stability := flags,
                       stdout := (if niter = iterations - 1
                                  then stdout st @ [stability_message]
                                  else stdout st),
                       clusters_prev := clusters\<rparr>))"

definition iteration ::
  "namespace \<Rightarrow> vec list \<Rightarrow> matrix \<Rightarrow> pynum \<Rightarrow> nat \<Rightarrow> nat \<Rightarrow> nat \<Rightarrow> loop_state \<Rightarrow> error + step" where
  "iteration g mydata s_matrix damp_c iterations num_stable_iters niter st =
     and_then (update_arrays g (length mydata) s_matrix damp_c niter (a_history st, r_history st))
       (\<lambda>(a_arr, r_arr).
     and_then (cluster_assignment niter (a_arr, r_arr)) (\<lambda>clusters.
       Inr (track mydata iterations num_stable_iters niter clusters
              (st\<lparr>a_history := a_arr, r_history := r_arr\<rparr>))))"

text \<open>
  \<open>for niter in range(1, iterations)\<close> (line 121), left by a \<open>return\<close> or by the end of
  the range.
\<close>

fun main_loop ::
  "(nat \<Rightarrow> loop_state \<Rightarrow> error + step) \<Rightarrow> nat list \<Rightarrow> loop_state \<Rightarrow> error + outcome" where
  "main_loop body [] st = Inr \<lparr>returned = None, printed = stdout st\<rparr>"
| "main_loop body (niter # rest) st =
     (case body niter st of
        Inl e \<Rightarrow> Inl e
      | Inr (Return res) \<Rightarrow> Inr \<lparr>returned = Some res, printed = stdout st\<rparr>
      | Inr (Continue st') \<Rightarrow> main_loop body rest st')"

text \<open>
  The function, with its helper names resolved in the namespace \<open>g\<close>. A pandas data
  frame is replaced by its array of values first, so \<open>mydata\<close> is the array.
\<close>

definition afprop_vec2_in ::
  "namespace \<Rightarrow> vec list \<Rightarrow> pynum \<Rightarrow> pynum \<Rightarrow> pynum \<Rightarrow> pynum \<Rightarrow> error + outcome" where
  "afprop_vec2_in g mydata num_cluster_pref iterations damp_c num_stable_iters =
     (case check_parameters num_cluster_pref iterations damp_c num_stable_iters of
        Some e \<Rightarrow> Inl e
      | None \<Rightarrow>
          and_then (prepare g mydata num_cluster_pref (nat (int_val iterations))) (\<lambda>(s_matrix, st).
            main_loop
              (iteration g mydata s_matrix damp_c (nat (int_val iterations))
                 (nat (int_val num_stable_iters)))
              [1..<nat (int_val iterations)] st))"

text \<open>The function as \<open>temp.py\<close> has it: the names are those of the module itself.\<close>

definition afprop_vec2 :: "vec list \<Rightarrow> pynum \<Rightarrow> pynum \<Rightarrow> pynum \<Rightarrow> pynum \<Rightarrow> error + outcome" where
  "afprop_vec2 = afprop_vec2_in temp_module"

section \<open>The quantities the specification names for the updates\<close>

text \<open>An \<open>n \<times> n\<close> array.\<close>

definition square :: "nat \<Rightarrow> matrix \<Rightarrow> bool" where
  "square n m \<longleftrightarrow> length m = n \<and> (\<forall>row\<in>set m. length row = n)"

text \<open>
  The availability update term from the responsibilities \<open>r\<close> of the previous iteration:
  for \<open>i \<noteq> k\<close> the minimum of 0 and \<open>r(k,k)\<close> plus the sum of \<open>max(0, r(j,k))\<close> over the
  \<open>j\<close> other than \<open>i\<close> and \<open>k\<close>; for \<open>i = k\<close> the sum of \<open>max(0, r(j,k))\<close> over the \<open>j\<close> other
  than \<open>k\<close>.
\<close>

definition availability_term :: "matrix \<Rightarrow> nat \<Rightarrow> nat \<Rightarrow> nat \<Rightarrow> real" where
  "availability_term r n i k =
     (if i \<noteq> k
      then min 0 (r ! k ! k
                  + sum_list (map (\<lambda>j. max 0 (r ! j ! k)) (filter (\<lambda>j. j \<noteq> i \<and> j \<noteq> k) [0..<n])))
      else sum_list (map (\<lambda>j. max 0 (r ! j ! k)) (filter (\<lambda>j. j \<noteq> k) [0..<n])))"

text \<open>
  The responsibility update term from the similarities \<open>s\<close> and the availabilities \<open>a\<close>
  of the same iteration: \<open>s(i,k)\<close> minus the maximum of \<open>s(i,k') + a(i,k')\<close> over the
  \<open>k'\<close> other than \<open>k\<close>.
\<close>

definition responsibility_term :: "matrix \<Rightarrow> matrix \<Rightarrow> nat \<Rightarrow> nat \<Rightarrow> nat \<Rightarrow> real" where
  "responsibility_term s a n i k =
     s ! i ! k - Max ((\<lambda>k'. s ! i ! k' + a ! i ! k') ` ({0..<n} - {k}))"

section \<open>Properties of \<open>calc_similarity_matrix\<close>\<close>

lemma sq_euclidean_nonneg: "0 \<le> sq_euclidean p q"
  unfolding sq_euclidean_def by (rule sum_list_nonneg) auto

lemma euclidean_squared: "(euclidean p q)\<^sup>2 = sq_euclidean p q"
  using sq_euclidean_nonneg [of p q] by (simp add: euclidean_def sq_euclidean_def)

lemma neg_euc_dist_eq: "neg_euc_dist pts = neg_sq_dist pts"
  by (simp add: neg_euc_dist_def neg_sq_dist_def cdist_def euclidean_squared)

lemma sq_euclidean_self: "sq_euclidean p p = 0"
  by (induction p) (simp_all add: sq_euclidean_def)

lemma length_fill_diagonal: "length (fill_diagonal m v) = length m"
  by (simp add: fill_diagonal_def)

lemma fill_diagonal_nth:
  "i < length m \<Longrightarrow> fill_diagonal m v ! i ! k = (if k = i \<and> i < length (m ! i) then v else m ! i ! k)"
  by (auto simp: fill_diagonal_def nth_list_update list_update_beyond)

lemma fill_diagonal_row_length:
  "i < length m \<Longrightarrow> length (fill_diagonal m v ! i) = length (m ! i)"
  by (simp add: fill_diagonal_def)

lemma length_neg_sq_dist: "length (neg_sq_dist pts) = length pts"
  by (simp add: neg_sq_dist_def)

lemma neg_sq_dist_row_length: "i < length pts \<Longrightarrow> length (neg_sq_dist pts ! i) = length pts"
  by (simp add: neg_sq_dist_def)

lemma neg_sq_dist_nth:
  "i < length pts \<Longrightarrow> k < length pts \<Longrightarrow> neg_sq_dist pts ! i ! k = - sq_euclidean (pts ! i) (pts ! k)"
  by (simp add: neg_sq_dist_def)

lemma set_off_diagonal:
  "set (off_diagonal m) = {m ! i ! k | i k. i < length m \<and> k < length m \<and> k \<noteq> i}"
  by (auto simp: off_diagonal_def) blast

lemma set_concat_neg_sq_dist:
  "set (concat (neg_sq_dist pts)) = {- sq_euclidean (pts ! i) (pts ! k) | i k. i < length pts \<and> k < length pts}"
proof -
  have "set (concat (neg_sq_dist pts)) = (\<Union>p\<in>set pts. (\<lambda>q. - sq_euclidean p q) ` set pts)"
    by (simp add: neg_sq_dist_def)
  also have "\<dots> = {- sq_euclidean (pts ! i) (pts ! k) | i k. i < length pts \<and> k < length pts}"
    by (fastforce simp: in_set_conv_nth)
  finally show ?thesis .
qed

lemma np_min_Min:
  assumes "xs \<noteq> []"
  shows "np_min xs = Inr (Min (set xs))"
proof (cases xs)
  case Nil
  then show ?thesis using assms by simp
next
  case (Cons a list)
  then show ?thesis using Min.set_eq_fold [of a list] by simp
qed

lemma Min_all_eq_off_diagonal:
  assumes "2 \<le> length pts"
  shows "Min (set (concat (neg_sq_dist pts))) = Min (set (off_diagonal (fill_diagonal (neg_sq_dist pts) v)))"
proof -
  let ?n = "length pts"
  let ?A = "set (concat (neg_sq_dist pts))"
  let ?B = "set (off_diagonal (fill_diagonal (neg_sq_dist pts) v))"
  have B: "?B = {- sq_euclidean (pts ! i) (pts ! k) | i k. i < ?n \<and> k < ?n \<and> k \<noteq> i}"
    unfolding set_off_diagonal length_fill_diagonal length_neg_sq_dist
    apply (rule Collect_cong)
    apply (rule ex_cong1)+
    apply (auto simp: fill_diagonal_nth length_neg_sq_dist neg_sq_dist_nth)
    done
  have A: "?A = {- sq_euclidean (pts ! i) (pts ! k) | i k. i < ?n \<and> k < ?n}"
    by (rule set_concat_neg_sq_dist)
  have fin: "finite ?A" "finite ?B" by simp_all
  have sub: "?B \<subseteq> ?A" unfolding A B by blast
  have "- sq_euclidean (pts ! 0) (pts ! 1) \<in> ?B"
    unfolding B using assms by (intro CollectI exI [of _ 0] exI [of _ 1]) auto
  then have ne: "?B \<noteq> {}" by auto
  have le0: "\<And>b. b \<in> ?B \<Longrightarrow> b \<le> 0"
    unfolding B using sq_euclidean_nonneg by auto
  have "Min ?B \<in> ?B" using fin ne by (intro Min_in)
  then have MinB0: "Min ?B \<le> 0" by (rule le0)
  have "\<And>a. a \<in> ?A \<Longrightarrow> Min ?B \<le> a"
  proof -
    fix a assume "a \<in> ?A"
    then obtain i k where ik: "i < ?n" "k < ?n" and a: "a = - sq_euclidean (pts ! i) (pts ! k)"
      unfolding A by blast
    show "Min ?B \<le> a"
    proof (cases "k = i")
      case True
      then show ?thesis using a MinB0 by (simp add: sq_euclidean_self)
    next
      case False
      then have "a \<in> ?B" unfolding B using ik a by blast
      then show ?thesis using fin by (intro Min_le)
    qed
  qed
  moreover have "Min ?B \<in> ?A" using \<open>Min ?B \<in> ?B\<close> sub by blast
  ultimately show ?thesis using fin by (intro Min_eqI) auto
qed

text \<open>
  Claim C2, as the code has it. For a point set of at least two points the function
  returns an \<open>n \<times> n\<close> matrix whose off-diagonal entries are the negated squared
  Euclidean distances. With \<open>num_cluster_pref = 1\<close> every diagonal entry is the minimum
  of the off-diagonal entries. With any other value the diagonal entry is the median of
  all \<open>n\<^sup>2\<close> entries of the matrix of negated squared distances, its \<open>n\<close> zero diagonal
  entries included, which is not the median of the off-diagonal entries.
\<close>

theorem similarity_matrix_entries:
  assumes "2 \<le> length pts"
  shows "\<exists>S. calc_similarity_matrix pts mode = Inr S
           \<and> length S = length pts
           \<and> (\<forall>i<length pts. length (S ! i) = length pts)
           \<and> (\<forall>i<length pts. \<forall>k<length pts. i \<noteq> k \<longrightarrow>
                  S ! i ! k = - sq_euclidean (pts ! i) (pts ! k))
           \<and> (\<forall>i<length pts. S ! i ! i =
                  (if num_val mode = 1 then Min (set (off_diagonal S))
                   else np_median (concat (neg_sq_dist pts))))"
proof -
  let ?N = "neg_sq_dist pts"
  have ne: "concat ?N \<noteq> []"
    using assms by (cases pts) (auto simp: neg_sq_dist_def)
  define pref where "pref = (if num_val mode = 1 then Min (set (concat ?N)) else np_median (concat ?N))"
  have run: "calc_similarity_matrix pts mode = Inr (fill_diagonal ?N pref)"
    using np_min_Min [OF ne]
    by (simp add: calc_similarity_matrix_def neg_euc_dist_eq and_then_def pref_def Let_def)
  have diag: "\<forall>i<length pts. fill_diagonal ?N pref ! i ! i = pref"
  proof (intro allI impI)
    fix i assume i: "i < length pts"
    then have "i < length ?N" "i < length (?N ! i)"
      by (simp_all add: length_neg_sq_dist neg_sq_dist_row_length)
    then show "fill_diagonal ?N pref ! i ! i = pref"
      using fill_diagonal_nth [of i ?N pref i] by simp
  qed
  have "pref = (if num_val mode = 1 then Min (set (off_diagonal (fill_diagonal ?N pref)))
                else np_median (concat ?N))"
  proof (cases "num_val mode = 1")
    case True
    then have "pref = Min (set (concat ?N))" by (simp add: pref_def)
    also have "\<dots> = Min (set (off_diagonal (fill_diagonal ?N pref)))"
      by (rule Min_all_eq_off_diagonal [OF assms])
    finally show ?thesis using True by simp
  next
    case False
    then show ?thesis by (simp add: pref_def)
  qed
  with diag have d: "\<forall>i<length pts. fill_diagonal ?N pref ! i ! i =
       (if num_val mode = 1 then Min (set (off_diagonal (fill_diagonal ?N pref)))
        else np_median (concat ?N))"
    by simp
  have off: "\<forall>i<length pts. \<forall>k<length pts. i \<noteq> k \<longrightarrow>
       fill_diagonal ?N pref ! i ! k = - sq_euclidean (pts ! i) (pts ! k)"
  proof (intro allI impI)
    fix i k assume ik: "i < length pts" "k < length pts" "i \<noteq> k"
    then have "i < length ?N" by (simp add: length_neg_sq_dist)
    then show "fill_diagonal ?N pref ! i ! k = - sq_euclidean (pts ! i) (pts ! k)"
      using fill_diagonal_nth [of i ?N pref k] ik by (simp add: neg_sq_dist_nth)
  qed
  have len: "length (fill_diagonal ?N pref) = length pts"
    by (simp add: length_fill_diagonal length_neg_sq_dist)
  have rows: "\<forall>i<length pts. length (fill_diagonal ?N pref ! i) = length pts"
    by (simp add: fill_diagonal_row_length length_neg_sq_dist neg_sq_dist_row_length)
  show ?thesis using run len rows off d by blast
qed

text \<open>
  Two points at distance 1, \<open>num_cluster_pref = 2\<close>: the diagonal is \<open>- 1 / 2\<close>, the median
  of \<open>0, - 1, - 1, 0\<close>, while both off-diagonal entries are \<open>- 1\<close>.
\<close>

lemma calc_two_points:
  "calc_similarity_matrix [[0], [1]] (PyInt 2) = Inr [[- 1 / 2, - 1], [- 1, - 1 / 2]]"
  by (simp add: calc_similarity_matrix_def neg_euc_dist_eq neg_sq_dist_def sq_euclidean_def
      np_median_def fill_diagonal_def and_then_def upt_rec)

theorem similarity_median_counterexample:
  "calc_similarity_matrix [[0], [1]] (PyInt 2) = Inr [[- 1 / 2, - 1], [- 1, - 1 / 2]]
   \<and> np_median (off_diagonal [[- 1 / 2, - 1], [- 1, - 1 / 2]]) = - 1
   \<and> [[- 1 / 2, - 1], [- 1, - 1 / 2 :: real]] ! 0 ! 0 \<noteq> np_median (off_diagonal [[- 1 / 2, - 1], [- 1, - 1 / 2]])"
  by (simp add: calc_two_points off_diagonal_def np_median_def upt_rec)

theorem similarity_matrix_entries_witness:
  "(\<exists>S. calc_similarity_matrix [[0], [1], [3]] (PyInt 1) = Inr S
      \<and> S ! 0 ! 1 = - 1 \<and> S ! 0 ! 2 = - 9 \<and> S ! 1 ! 2 = - 4
      \<and> S ! 0 ! 0 = Min (set (off_diagonal S)) \<and> S ! 2 ! 2 = Min (set (off_diagonal S)))
   \<and> (\<exists>S. calc_similarity_matrix [[0], [1]] (PyInt 2) = Inr S
      \<and> S ! 0 ! 1 = - 1 \<and> S ! 0 ! 0 = - 1 / 2 \<and> S ! 1 ! 1 = - 1 / 2)"
proof -
  have h: "2 \<le> length [[0], [1], [3 :: real]]" by simp
  from similarity_matrix_entries [OF h, of "PyInt 1"] obtain S where
    S: "calc_similarity_matrix [[0], [1], [3]] (PyInt 1) = Inr S"
    and off: "\<forall>i<length [[0], [1], [3::real]]. \<forall>k<length [[0], [1], [3::real]]. i \<noteq> k \<longrightarrow>
                  S ! i ! k = - sq_euclidean ([[0], [1], [3]] ! i) ([[0], [1], [3]] ! k)"
    and dg: "\<forall>i<length [[0], [1], [3::real]]. S ! i ! i =
                  (if num_val (PyInt 1) = 1 then Min (set (off_diagonal S))
                   else np_median (concat (neg_sq_dist [[0], [1], [3]])))"
    by blast
  have "S ! 0 ! 1 = - 1" "S ! 0 ! 2 = - 9" "S ! 1 ! 2 = - 4"
    using off by (simp_all add: sq_euclidean_def)
  moreover have "S ! 0 ! 0 = Min (set (off_diagonal S))" "S ! 2 ! 2 = Min (set (off_diagonal S))"
    using dg by simp_all
  ultimately have first: "\<exists>S. calc_similarity_matrix [[0], [1], [3]] (PyInt 1) = Inr S
      \<and> S ! 0 ! 1 = - 1 \<and> S ! 0 ! 2 = - 9 \<and> S ! 1 ! 2 = - 4
      \<and> S ! 0 ! 0 = Min (set (off_diagonal S)) \<and> S ! 2 ! 2 = Min (set (off_diagonal S))"
    using S by blast
  have h2: "2 \<le> length [[0], [1 :: real]]" by simp
  from similarity_matrix_entries [OF h2, of "PyInt 2"] obtain S' where
    S': "calc_similarity_matrix [[0], [1]] (PyInt 2) = Inr S'"
    and off': "\<forall>i<length [[0], [1::real]]. \<forall>k<length [[0], [1::real]]. i \<noteq> k \<longrightarrow>
                  S' ! i ! k = - sq_euclidean ([[0], [1]] ! i) ([[0], [1]] ! k)"
    and dg': "\<forall>i<length [[0], [1::real]]. S' ! i ! i =
                  (if num_val (PyInt 2) = 1 then Min (set (off_diagonal S'))
                   else np_median (concat (neg_sq_dist [[0], [1]])))"
    by blast
  have med: "np_median (concat (neg_sq_dist [[0], [1]])) = - 1 / 2"
    by (simp add: neg_sq_dist_def sq_euclidean_def np_median_def)
  have "S' ! 0 ! 1 = - 1" using off' by (simp add: sq_euclidean_def)
  moreover have "S' ! 0 ! 0 = - 1 / 2" "S' ! 1 ! 1 = - 1 / 2" using dg' med by simp_all
  ultimately have "\<exists>S. calc_similarity_matrix [[0], [1]] (PyInt 2) = Inr S
      \<and> S ! 0 ! 1 = - 1 \<and> S ! 0 ! 0 = - 1 / 2 \<and> S ! 1 ! 1 = - 1 / 2"
    using S' by blast
  then show ?thesis using first by blast
qed

section \<open>Properties of the parameter checks and of the module namespace\<close>

lemma check_parameters_None_iff:
  "check_parameters p it d w = None \<longleftrightarrow>
     (num_val p = 1 \<or> num_val p = 2) \<and> (is_int it \<and> 1 \<le> num_val it)
     \<and> (0 < num_val d \<and> num_val d \<le> 1)
     \<and> (is_int w \<and> 1 \<le> num_val w \<and> num_val w \<le> num_val it)"
  by (auto simp: check_parameters_def)

lemma check_parameters_Some:
  "check_parameters p it d w = Some e \<Longrightarrow> \<exists>msg. e = ValueError msg"
  by (auto simp: check_parameters_def split: if_splits)

lemma afprop_vec2_in_invalid:
  "check_parameters p it d w = Some e \<Longrightarrow> afprop_vec2_in g mydata p it d w = Inl e"
  by (simp add: afprop_vec2_in_def)

lemma call_unbound: "g f = None \<Longrightarrow> call g f args = Inl (NameError f)"
  by (simp add: call_def)

lemma temp_module_unbound:
  "temp_module ''create_s_metric_matrix'' = None" "temp_module ''create_s_matrix'' = None"
  by (simp_all add: temp_module_def)

lemma prepare_temp_module:
  "prepare temp_module mydata p T = Inl (NameError ''create_s_metric_matrix'')"
  by (simp add: prepare_def call_def temp_module_def and_then_def)

lemma afprop_vec2_valid:
  "check_parameters p it d w = None \<Longrightarrow>
     afprop_vec2 mydata p it d w = Inl (NameError ''create_s_metric_matrix'')"
  by (simp add: afprop_vec2_def afprop_vec2_in_def prepare_temp_module and_then_def)

text \<open>
  Claim C8. The function raises \<open>ValueError\<close> exactly when \<open>num_cluster_pref\<close> is neither 1
  nor 2, or \<open>iterations\<close> is not an integer of at least 1, or \<open>damp_c\<close> is outside \<open>(0, 1]\<close>,
  or \<open>num_stable_iters\<close> is not an integer of at least 1 or exceeds \<open>iterations\<close>. The
  error is the same in every namespace: it is raised before any helper is called, so
  before any similarity or message is computed.
\<close>

theorem invalid_parameter_iff:
  "((\<exists>msg. afprop_vec2 mydata p it d w = Inl (ValueError msg)) \<longleftrightarrow>
      (num_val p \<noteq> 1 \<and> num_val p \<noteq> 2)
      \<or> \<not> (is_int it \<and> 1 \<le> num_val it)
      \<or> \<not> (0 < num_val d \<and> num_val d \<le> 1)
      \<or> \<not> (is_int w \<and> 1 \<le> num_val w)
      \<or> num_val it < num_val w)
   \<and> (check_parameters p it d w \<noteq> None \<longrightarrow>
        (\<exists>msg. \<forall>g. afprop_vec2_in g mydata p it d w = Inl (ValueError msg)))"
proof (cases "check_parameters p it d w")
  case None
  then have "afprop_vec2 mydata p it d w = Inl (NameError ''create_s_metric_matrix'')"
    by (rule afprop_vec2_valid)
  moreover from None have "(num_val p = 1 \<or> num_val p = 2) \<and> (is_int it \<and> 1 \<le> num_val it)
     \<and> (0 < num_val d \<and> num_val d \<le> 1)
     \<and> (is_int w \<and> 1 \<le> num_val w \<and> num_val w \<le> num_val it)"
    by (simp add: check_parameters_None_iff)
  ultimately show ?thesis using None by auto
next
  case (Some e)
  then obtain msg where e: "e = ValueError msg" using check_parameters_Some by blast
  have all: "\<forall>g. afprop_vec2_in g mydata p it d w = Inl (ValueError msg)"
    using Some e by (simp add: afprop_vec2_in_invalid)
  then have "afprop_vec2 mydata p it d w = Inl (ValueError msg)"
    by (simp add: afprop_vec2_def)
  moreover from Some have "\<not> ((num_val p = 1 \<or> num_val p = 2) \<and> (is_int it \<and> 1 \<le> num_val it)
     \<and> (0 < num_val d \<and> num_val d \<le> 1)
     \<and> (is_int w \<and> 1 \<le> num_val w \<and> num_val w \<le> num_val it))"
    using check_parameters_None_iff [of p it d w] by simp
  ultimately show ?thesis using all Some by auto
qed

theorem invalid_parameter_iff_witness:
  "(\<exists>msg. afprop_vec2 [[0], [1]] (PyInt 0) (PyInt 100) (PyFloat (1 / 2)) (PyInt 10) = Inl (ValueError msg))
   \<and> (\<exists>msg. afprop_vec2 [[0], [1]] (PyInt 1) (PyInt 100) (PyInt 2) (PyInt 10) = Inl (ValueError msg))
   \<and> (\<exists>msg. afprop_vec2 [[0], [1]] (PyInt 1) (PyInt 100) (PyFloat (1 / 2)) (PyInt 101) = Inl (ValueError msg))
   \<and> \<not> (\<exists>msg. afprop_vec2 [[0], [1]] (PyInt 1) (PyInt 100) (PyFloat (1 / 2)) (PyInt 10) = Inl (ValueError msg))"
  using invalid_parameter_iff [of "[[0], [1]]" "PyInt 0" "PyInt 100" "PyFloat (1 / 2)" "PyInt 10"]
    invalid_parameter_iff [of "[[0], [1]]" "PyInt 1" "PyInt 100" "PyInt 2" "PyInt 10"]
    invalid_parameter_iff [of "[[0], [1]]" "PyInt 1" "PyInt 100" "PyFloat (1 / 2)" "PyInt 101"]
    invalid_parameter_iff [of "[[0], [1]]" "PyInt 1" "PyInt 100" "PyFloat (1 / 2)" "PyInt 10"]
  by simp

lemma call_init_r_array_two: "call temp_module ''init_r_array'' [x, y] = Inl (TypeError ''init_r_array() takes 1 positional argument'')"
  by (simp add: call_def temp_module_def call_init_r_array_def)

lemma call_r_array_update_six:
  "call temp_module ''r_array_update'' [a, b, c, x, y, z] = Inl (TypeError ''r_array_update() takes 5 positional arguments'')"
  by (simp add: call_def temp_module_def call_r_array_update_def)

text \<open>
  Whatever the other names are bound to, with the module's own \<open>init_r_array\<close> the set-up
  raises, and with the module's own \<open>r_array_update\<close> the first iteration raises.
\<close>

lemma prepare_own_init_r_array:
  assumes "g ''init_r_array'' = Some call_init_r_array"
  shows "\<exists>e. prepare g mydata p T = Inl e"
  using assms
  by (auto simp: prepare_def call_def and_then_def call_init_r_array_def Let_def split: sum.splits option.splits)

lemma iteration_own_r_array_update:
  assumes "g ''r_array_update'' = Some call_r_array_update"
  shows "\<exists>e. iteration g mydata S d T W niter st = Inl e"
  using assms
  by (auto simp: iteration_def update_arrays_def call_def and_then_def call_r_array_update_def
      split: sum.splits option.splits)

lemma main_loop_body_raises:
  assumes "\<And>niter st. \<exists>e. body niter st = Inl e"
  shows "main_loop body ts st = Inr out \<Longrightarrow> returned out = None"
proof (cases ts)
  case Nil
  then show "main_loop body ts st = Inr out \<Longrightarrow> returned out = None" by auto
next
  case (Cons t rest)
  obtain e where "body t st = Inl e" using assms by blast
  then show "main_loop body ts st = Inr out \<Longrightarrow> returned out = None" using Cons by simp
qed

lemma afprop_vec2_in_never_returns:
  assumes "g ''r_array_update'' = Some call_r_array_update"
    and "afprop_vec2_in g mydata p it d w = Inr out"
  shows "returned out = None"
proof -
  from assms(2) obtain S st where
    "main_loop (iteration g mydata S d (nat (int_val it)) (nat (int_val w))) [1..<nat (int_val it)] st = Inr out"
    by (auto simp: afprop_vec2_in_def and_then_def split: option.splits sum.splits)
  then show ?thesis
    using main_loop_body_raises [of "iteration g mydata S d (nat (int_val it)) (nat (int_val w))"]
      iteration_own_r_array_update [of g, OF assms(1)] by blast
qed

text \<open>
  Claim C1. On every input that passes the parameter checks \<open>afprop_vec2\<close> raises
  \<open>NameError\<close> at its first helper call: the module binds neither
  \<open>create_s_metric_matrix\<close> nor \<open>create_s_matrix\<close>. Its call of \<open>init_r_array\<close> passes two
  arguments to a function of one parameter and its call of \<open>r_array_update\<close> six to a
  function of five, so that even with the two names bound the set-up raises, and with
  \<open>r_array_update\<close> as the module defines it no iteration completes and no clustering
  is returned.
\<close>

theorem afprop_vec2_raises:
  assumes "check_parameters p it d w = None"
  shows "afprop_vec2 mydata p it d w = Inl (NameError ''create_s_metric_matrix'')
    \<and> temp_module ''create_s_metric_matrix'' = None
    \<and> temp_module ''create_s_matrix'' = None
    \<and> (\<forall>x y. call temp_module ''init_r_array'' [x, y]
                = Inl (TypeError ''init_r_array() takes 1 positional argument''))
    \<and> (\<forall>a b c x y z. call temp_module ''r_array_update'' [a, b, c, x, y, z]
                = Inl (TypeError ''r_array_update() takes 5 positional arguments''))
    \<and> (\<forall>g. g ''init_r_array'' = Some call_init_r_array \<longrightarrow>
             (\<exists>e. afprop_vec2_in g mydata p it d w = Inl e))
    \<and> (\<forall>g out. g ''r_array_update'' = Some call_r_array_update \<longrightarrow>
             afprop_vec2_in g mydata p it d w = Inr out \<longrightarrow> returned out = None)"
proof -
  have "\<forall>g. g ''init_r_array'' = Some call_init_r_array \<longrightarrow>
             (\<exists>e. afprop_vec2_in g mydata p it d w = Inl e)"
  proof (intro allI impI)
    fix g :: namespace assume g: "g ''init_r_array'' = Some call_init_r_array"
    obtain e where "prepare g mydata p (nat (int_val it)) = Inl e"
      using prepare_own_init_r_array [of g, OF g] by blast
    then show "\<exists>e. afprop_vec2_in g mydata p it d w = Inl e"
      using assms by (simp add: afprop_vec2_in_def and_then_def)
  qed
  moreover have "\<forall>g out. g ''r_array_update'' = Some call_r_array_update \<longrightarrow>
             afprop_vec2_in g mydata p it d w = Inr out \<longrightarrow> returned out = None"
    using afprop_vec2_in_never_returns by blast
  ultimately show ?thesis
    using afprop_vec2_valid [OF assms] temp_module_unbound call_init_r_array_two
      call_r_array_update_six by simp
qed

theorem afprop_vec2_raises_witness:
  "check_parameters (PyInt 1) (PyInt 100) (PyFloat (1 / 2)) (PyInt 10) = None
   \<and> afprop_vec2 [[0, 0], [4, 4]] (PyInt 1) (PyInt 100) (PyFloat (1 / 2)) (PyInt 10)
       = Inl (NameError ''create_s_metric_matrix'')"
proof -
  have h: "check_parameters (PyInt 1) (PyInt 100) (PyFloat (1 / 2)) (PyInt 10) = None"
    by (simp add: check_parameters_def)
  show ?thesis using h afprop_vec2_raises [OF h, of "[[0, 0], [4, 4]]"] by simp
qed

section \<open>Properties of the array primitives\<close>

lemma and_then_Inr [simp]: "and_then (Inr x) f = f x"
  by (simp add: and_then_def)

lemma and_then_Inl [simp]: "and_then (Inl e) f = Inl e"
  by (simp add: and_then_def)

lemma norm_index_nat: "j < len \<Longrightarrow> norm_index len (int j) = Inr j"
  by (simp add: norm_index_def)

lemma item_nat: "j < length xs \<Longrightarrow> item xs (int j) = Inr (xs ! j)"
  by (simp add: item_def norm_index_nat)

lemma each_row_map:
  "(\<And>row. row \<in> set m \<Longrightarrow> f row = Inr (h row)) \<Longrightarrow> each_row f m = Inr (map h m)"
  by (induction m) simp_all

lemma axis1_map:
  assumes "m \<noteq> []" and "\<And>row. row \<in> set m \<Longrightarrow> f row = Inr (h row)"
  shows "axis1 f m = Inr (map h m)"
  using assms by (simp add: axis1_def each_row_map)

lemma np_max_Max:
  assumes "xs \<noteq> []"
  shows "np_max xs = Inr (Max (set xs))"
proof (cases xs)
  case Nil
  then show ?thesis using assms by simp
next
  case (Cons a list)
  then show ?thesis using Max.set_eq_fold [of a list] by simp
qed

lemma same_shape_iff:
  "same_shape a b \<longleftrightarrow> length a = length b \<and> (\<forall>i<length a. length (a ! i) = length (b ! i))"
  by (auto simp: same_shape_def list_eq_iff_nth_eq)

lemma elementwise_Inr:
  "same_shape a b \<Longrightarrow> elementwise f a b = Inr (map2 (map2 f) a b)"
  by (simp add: elementwise_def)

lemma same_shape_map2: "same_shape a b \<Longrightarrow> same_shape a (map2 (map2 f) a b)"
  by (simp add: same_shape_iff)

lemma map2_map2_nth:
  "same_shape a b \<Longrightarrow> i < length a \<Longrightarrow> k < length (a ! i) \<Longrightarrow>
     map2 (map2 f) a b ! i ! k = f (a ! i ! k) (b ! i ! k)"
  by (simp add: same_shape_iff)

section \<open>Properties of the cluster assignment\<close>

lemma argmax_scan_first_max:
  assumes "length ys = j" "best < j" "ys ! best = v"
    and "\<forall>k<j. ys ! k \<le> v" and "\<forall>k<best. ys ! k < v"
  shows "argmax_scan xs j best v < length (ys @ xs)
    \<and> (\<forall>k<length (ys @ xs). (ys @ xs) ! k \<le> (ys @ xs) ! argmax_scan xs j best v)
    \<and> (\<forall>k<argmax_scan xs j best v. (ys @ xs) ! k < (ys @ xs) ! argmax_scan xs j best v)"
  using assms
proof (induction xs arbitrary: ys j best v)
  case Nil
  then show ?case by simp
next
  case (Cons x xs)
  show ?case
  proof (cases "v < x")
    case True
    have "argmax_scan xs (Suc j) j x < length ((ys @ [x]) @ xs)
      \<and> (\<forall>k<length ((ys @ [x]) @ xs). ((ys @ [x]) @ xs) ! k \<le> ((ys @ [x]) @ xs) ! argmax_scan xs (Suc j) j x)
      \<and> (\<forall>k<argmax_scan xs (Suc j) j x. ((ys @ [x]) @ xs) ! k < ((ys @ [x]) @ xs) ! argmax_scan xs (Suc j) j x)"
    proof (rule Cons.IH)
      show "length (ys @ [x]) = Suc j" using Cons.prems by simp
      show "j < Suc j" by simp
      show "(ys @ [x]) ! j = x" using Cons.prems by (simp add: nth_append)
      show "\<forall>k<Suc j. (ys @ [x]) ! k \<le> x"
        using Cons.prems True by (auto simp: nth_append less_Suc_eq intro: order_trans less_imp_le)
      show "\<forall>k<j. (ys @ [x]) ! k < x"
        using Cons.prems True by (auto simp: nth_append intro: le_less_trans)
    qed
    then show ?thesis using True by simp
  next
    case False
    have "argmax_scan xs (Suc j) best v < length ((ys @ [x]) @ xs)
      \<and> (\<forall>k<length ((ys @ [x]) @ xs). ((ys @ [x]) @ xs) ! k \<le> ((ys @ [x]) @ xs) ! argmax_scan xs (Suc j) best v)
      \<and> (\<forall>k<argmax_scan xs (Suc j) best v. ((ys @ [x]) @ xs) ! k < ((ys @ [x]) @ xs) ! argmax_scan xs (Suc j) best v)"
    proof (rule Cons.IH)
      show "length (ys @ [x]) = Suc j" using Cons.prems by simp
      show "best < Suc j" using Cons.prems by simp
      show "(ys @ [x]) ! best = v" using Cons.prems by (simp add: nth_append)
      show "\<forall>k<Suc j. (ys @ [x]) ! k \<le> v"
        using Cons.prems False by (auto simp: nth_append less_Suc_eq)
      show "\<forall>k<best. (ys @ [x]) ! k < v"
        using Cons.prems by (auto simp: nth_append)
    qed
    then show ?thesis using False by simp
  qed
qed

lemma np_argmax_first_max:
  assumes "row \<noteq> []"
  shows "\<exists>r. np_argmax row = Inr r \<and> r < length row
    \<and> (\<forall>k<length row. row ! k \<le> row ! r) \<and> (\<forall>k<r. row ! k < row ! r)"
proof (cases row)
  case Nil
  then show ?thesis using assms by simp
next
  case (Cons x xs)
  have "argmax_scan xs 1 0 x < length ([x] @ xs)
    \<and> (\<forall>k<length ([x] @ xs). ([x] @ xs) ! k \<le> ([x] @ xs) ! argmax_scan xs 1 0 x)
    \<and> (\<forall>k<argmax_scan xs 1 0 x. ([x] @ xs) ! k < ([x] @ xs) ! argmax_scan xs 1 0 x)"
    by (rule argmax_scan_first_max) simp_all
  then show ?thesis using Cons by simp
qed

lemma each_row_pointwise:
  assumes "\<And>row. row \<in> set m \<Longrightarrow> \<exists>x. f row = Inr x \<and> P row x"
  shows "\<exists>xs. each_row f m = Inr xs \<and> length xs = length m \<and> (\<forall>i<length m. P (m ! i) (xs ! i))"
  using assms
proof (induction m)
  case Nil
  then show ?case by simp
next
  case (Cons row rows)
  obtain x where x: "f row = Inr x" "P row x" using Cons.prems by auto
  obtain xs where xs: "each_row f rows = Inr xs" "length xs = length rows"
    "\<forall>i<length rows. P (rows ! i) (xs ! i)"
    using Cons.IH Cons.prems by auto
  have "\<forall>i<length (row # rows). P ((row # rows) ! i) ((x # xs) ! i)"
    using x xs by (auto simp: nth_Cons split: nat.splits)
  then show ?case using x xs by simp
qed

text \<open>
  Claim C10. On history arrays whose slices \<open>niter\<close> have the same shape, with at least
  one row and no empty row, the assignment of point \<open>i\<close> is a position of the maximum of
  \<open>R[i,k] + A[i,k]\<close> over \<open>k\<close>, and every earlier position has a strictly smaller
  score: among equal maxima the lowest index is taken.
\<close>

theorem cluster_assignment_argmax:
  assumes "niter < length A" "niter < length R"
    and "same_shape (R ! niter) (A ! niter)"
    and "R ! niter \<noteq> []" and "\<forall>row\<in>set (R ! niter). row \<noteq> []"
  shows "\<exists>clusters. cluster_assignment niter (A, R) = Inr clusters
    \<and> length clusters = length (R ! niter)
    \<and> (\<forall>i<length (R ! niter).
          clusters ! i < length (R ! niter ! i)
          \<and> (\<forall>k<length (R ! niter ! i).
                R ! niter ! i ! k + A ! niter ! i ! k
                \<le> R ! niter ! i ! (clusters ! i) + A ! niter ! i ! (clusters ! i))
          \<and> (\<forall>k<clusters ! i.
                R ! niter ! i ! k + A ! niter ! i ! k
                < R ! niter ! i ! (clusters ! i) + A ! niter ! i ! (clusters ! i)))"
proof -
  let ?r = "R ! niter" and ?a = "A ! niter"
  let ?s = "map2 (map2 (+)) ?r ?a"
  let ?P = "\<lambda>row c. c < length row \<and> (\<forall>k<length row. row ! k \<le> row ! c) \<and> (\<forall>k<c. row ! k < row ! c)"
  have sh: "length ?r = length ?a" "\<forall>i<length ?r. length (?r ! i) = length (?a ! i)"
    using assms(3) by (simp_all add: same_shape_iff)
  have len: "length ?s = length ?r" using sh by simp
  have rowlen: "\<forall>i<length ?r. length (?s ! i) = length (?r ! i)" using sh by simp
  have ne: "?s \<noteq> []" using assms(4) len by (metis length_0_conv)
  have rows_ne: "\<And>row. row \<in> set ?s \<Longrightarrow> row \<noteq> []"
  proof -
    fix row assume "row \<in> set ?s"
    then obtain i where i: "i < length ?s" "row = ?s ! i" by (auto simp: in_set_conv_nth)
    then have "length row = length (?r ! i)" using rowlen len by simp
    moreover have "?r ! i \<noteq> []" using assms(5) i len by (metis nth_mem)
    ultimately show "row \<noteq> []" by auto
  qed
  have "\<exists>xs. each_row np_argmax ?s = Inr xs \<and> length xs = length ?s \<and> (\<forall>i<length ?s. ?P (?s ! i) (xs ! i))"
    by (rule each_row_pointwise) (use rows_ne np_argmax_first_max in blast)
  then obtain cl where cl: "each_row np_argmax ?s = Inr cl" "length cl = length ?s"
    "\<forall>i<length ?s. ?P (?s ! i) (cl ! i)" by blast
  have run: "cluster_assignment niter (A, R) = Inr cl"
    using assms(1,2,3) ne cl(1)
    by (simp add: cluster_assignment_def item_nat elementwise_Inr axis1_def)
  have "\<forall>i<length ?r.
          cl ! i < length (?r ! i)
          \<and> (\<forall>k<length (?r ! i). ?r ! i ! k + ?a ! i ! k \<le> ?r ! i ! (cl ! i) + ?a ! i ! (cl ! i))
          \<and> (\<forall>k<cl ! i. ?r ! i ! k + ?a ! i ! k < ?r ! i ! (cl ! i) + ?a ! i ! (cl ! i))"
  proof (intro allI impI)
    fix i assume i: "i < length ?r"
    have "i < length ?s" using i len by simp
    then have P: "?P (?s ! i) (cl ! i)" using cl(3) by blast
    have li: "length (?s ! i) = length (?r ! i)" using rowlen i by simp
    have c: "cl ! i < length (?r ! i)" using P li by simp
    have nth: "\<And>k. k < length (?r ! i) \<Longrightarrow> ?s ! i ! k = ?r ! i ! k + ?a ! i ! k"
      by (rule map2_map2_nth [OF assms(3) i])
    have "\<forall>k<length (?r ! i). ?r ! i ! k + ?a ! i ! k \<le> ?r ! i ! (cl ! i) + ?a ! i ! (cl ! i)"
      using P li nth c by metis
    moreover have "\<forall>k<cl ! i. ?r ! i ! k + ?a ! i ! k < ?r ! i ! (cl ! i) + ?a ! i ! (cl ! i)"
    proof (intro allI impI)
      fix k assume k: "k < cl ! i"
      then have "k < length (?r ! i)" using c by simp
      then show "?r ! i ! k + ?a ! i ! k < ?r ! i ! (cl ! i) + ?a ! i ! (cl ! i)"
        using P k nth c by metis
    qed
    ultimately show "cl ! i < length (?r ! i)
          \<and> (\<forall>k<length (?r ! i). ?r ! i ! k + ?a ! i ! k \<le> ?r ! i ! (cl ! i) + ?a ! i ! (cl ! i))
          \<and> (\<forall>k<cl ! i. ?r ! i ! k + ?a ! i ! k < ?r ! i ! (cl ! i) + ?a ! i ! (cl ! i))"
      using c by blast
  qed
  then show ?thesis using run cl(2) len by auto
qed

text \<open>A tie between columns 0 and 2 of the first row, and between all columns of the second.\<close>

theorem cluster_assignment_argmax_witness:
  "cluster_assignment 1 ([[[0, 0, 0], [0, 0, 0]], [[1, 0, 2], [0, 1, 0]]],
                         [[[0, 0, 0], [0, 0, 0]], [[2, 1, 1], [1, 0, 1]]]) = Inr [0, 0]"
proof -
  let ?A = "[[[0, 0, 0], [0, 0, 0]], [[1, 0, 2], [0, 1, 0 :: real]]]"
  let ?R = "[[[0, 0, 0], [0, 0, 0]], [[2, 1, 1], [1, 0, 1 :: real]]]"
  have "\<exists>clusters. cluster_assignment 1 (?A, ?R) = Inr clusters
    \<and> length clusters = length (?R ! 1)
    \<and> (\<forall>i<length (?R ! 1).
          clusters ! i < length (?R ! 1 ! i)
          \<and> (\<forall>k<length (?R ! 1 ! i).
                ?R ! 1 ! i ! k + ?A ! 1 ! i ! k
                \<le> ?R ! 1 ! i ! (clusters ! i) + ?A ! 1 ! i ! (clusters ! i))
          \<and> (\<forall>k<clusters ! i.
                ?R ! 1 ! i ! k + ?A ! 1 ! i ! k
                < ?R ! 1 ! i ! (clusters ! i) + ?A ! 1 ! i ! (clusters ! i)))"
    by (rule cluster_assignment_argmax) (simp_all add: same_shape_def)
  then obtain cl where cl: "cluster_assignment 1 (?A, ?R) = Inr cl" by blast
  moreover have "cluster_assignment 1 (?A, ?R) = Inr [0, 0]"
    by (simp add: cluster_assignment_def item_def norm_index_def elementwise_def same_shape_def axis1_def)
  ultimately show ?thesis by simp
qed

section \<open>Properties of the initial messages\<close>






section \<open>Properties of \<open>a_array_update\<close>\<close>

lemma for_each_from:
  assumes "m \<le> n" "I m s"
    and step: "\<And>j s. m \<le> j \<Longrightarrow> j < n \<Longrightarrow> I j s \<Longrightarrow> \<exists>s'. body j s = Inr s' \<and> I (Suc j) s'"
  shows "\<exists>s'. for_each [m..<n] body s = Inr s' \<and> I n s'"
  using assms
proof (induction "n - m" arbitrary: m s)
  case 0
  then show ?case by simp
next
  case (Suc d)
  then have mn: "m < n" by simp
  obtain s1 where s1: "body m s = Inr s1" "I (Suc m) s1"
    using Suc.prems(3) [of m s] mn Suc.prems(2) by auto
  have "\<exists>s'. for_each [Suc m..<n] body s1 = Inr s' \<and> I n s'"
  proof (rule Suc.hyps(1))
    show "d = n - Suc m" using Suc.hyps(2) by simp
    show "Suc m \<le> n" using mn by simp
    show "I (Suc m) s1" by (rule s1(2))
    show "\<And>j s. Suc m \<le> j \<Longrightarrow> j < n \<Longrightarrow> I j s \<Longrightarrow> \<exists>s'. body j s = Inr s' \<and> I (Suc j) s'"
      using Suc.prems(3) by simp
  qed
  then show ?case using s1(1) mn by (simp add: upt_conv_Cons)
qed

lemma for_each_range:
  assumes "I 0 s"
    and "\<And>j s. j < n \<Longrightarrow> I j s \<Longrightarrow> \<exists>s'. body j s = Inr s' \<and> I (Suc j) s'"
  shows "\<exists>s'. for_each [0..<n] body s = Inr s' \<and> I n s'"
  using for_each_from [of 0 n I s body] assms by simp

lemma square_length: "square n m \<Longrightarrow> length m = n"
  by (simp add: square_def)

lemma square_row: "square n m \<Longrightarrow> i < n \<Longrightarrow> length (m ! i) = n"
  by (simp add: square_def)

lemma square_ncols: "square n m \<Longrightarrow> 0 < n \<Longrightarrow> ncols m = n"
  by (cases m) (auto simp: square_def ncols_def)

lemma column_square:
  assumes "t < length arr" "square n (arr ! t)" "k < n"
  shows "column arr (int t) (int k) = Inr (map (\<lambda>row. row ! k) (arr ! t))"
  using assms by (simp add: column_def item_nat square_ncols norm_index_nat)

lemma item3_square:
  assumes "t < length arr" "square n (arr ! t)" "i < n" "k < n"
  shows "item3 arr (int t) (int i) (int k) = Inr (arr ! t ! i ! k)"
  using assms by (simp add: item3_def item_nat square_length square_row)

lemma set_item3_square:
  assumes "t < length arr" "square n (arr ! t)" "i < n" "k < n"
  shows "set_item3 arr (int t) (int i) (int k) v
           = Inr (arr[t := (arr ! t)[i := (arr ! t ! i)[k := v]]])"
  using assms by (simp add: set_item3_def norm_index_nat square_length square_row)

lemma sum_list_map2_upt:
  assumes "length xs = n" "length ys = n"
  shows "sum_list (map2 f xs ys) = sum_list (map (\<lambda>j. f (xs ! j) (ys ! j)) [0..<n])"
proof -
  have "map2 f xs ys = map (\<lambda>j. f (xs ! j) (ys ! j)) [0..<n]"
    using assms by (intro nth_equalityI) simp_all
  then show ?thesis by simp
qed

lemma masked_dot:
  fixes col tv :: "real list"
  assumes "length col = n" "length tv = n"
  shows "\<exists>tv'. mask_assign tv (map (\<lambda>x. x < 0) col) 0 = Inr tv'
    \<and> np_dot col tv' = Inr (sum_list (map (\<lambda>j. if col ! j < 0 then 0 else col ! j * tv ! j) [0..<n]))"
proof -
  let ?tv' = "map2 (\<lambda>y b. if b then 0 else y) tv (map (\<lambda>x. x < 0) col)"
  have m: "mask_assign tv (map (\<lambda>x. x < 0) col) 0 = Inr ?tv'"
    using assms by (simp add: mask_assign_def)
  have l: "length ?tv' = n" using assms by simp
  have nth: "\<And>j. j < n \<Longrightarrow> ?tv' ! j = (if col ! j < 0 then 0 else tv ! j)"
    using assms by simp
  have "sum_list (map2 (*) col ?tv') = sum_list (map (\<lambda>j. col ! j * ?tv' ! j) [0..<n])"
    using assms(1) l by (rule sum_list_map2_upt)
  also have "\<dots> = sum_list (map (\<lambda>j. if col ! j < 0 then 0 else col ! j * tv ! j) [0..<n])"
    by (rule arg_cong [where f = sum_list], rule map_cong) (simp_all add: nth)
  finally have "np_dot col ?tv' = Inr (sum_list (map (\<lambda>j. if col ! j < 0 then 0 else col ! j * tv ! j) [0..<n]))"
    using assms(1) l by (simp add: np_dot_def)
  then show ?thesis using m by blast
qed

lemma rectified_sum:
  fixes col tv :: "real list"
  assumes "\<And>j. j < n \<Longrightarrow> tv ! j = (if P j then 1 else 0)"
  shows "sum_list (map (\<lambda>j. if col ! j < 0 then 0 else col ! j * tv ! j) [0..<n])
       = sum_list (map (\<lambda>j. max 0 (col ! j)) (filter P [0..<n]))"
proof -
  have "sum_list (map (\<lambda>j. max 0 (col ! j)) (filter P [0..<n]))
      = sum_list (map (\<lambda>j. if P j then max 0 (col ! j) else 0) [0..<n])"
    by (rule sum_list_map_filter')
  also have "\<dots> = sum_list (map (\<lambda>j. if col ! j < 0 then 0 else col ! j * tv ! j) [0..<n])"
    by (rule arg_cong [where f = sum_list], rule map_cong) (auto simp: assms max_def)
  finally show ?thesis by simp
qed

lemma square_iff: "square n m \<longleftrightarrow> length m = n \<and> (\<forall>i<n. length (m ! i) = n)"
  by (auto simp: square_def all_set_conv_all_nth)

lemma square_update:
  "square n m \<Longrightarrow> square n (m[i := (m ! i)[k := x]])"
  by (cases "i < length m") (auto simp: square_iff nth_list_update list_update_beyond)

lemma np_min_pair: "np_min [x, 0] = Inr (min 0 x)"
  by (simp add: min.commute)

lemma a_entry_square:
  assumes ik: "i < n" "k < n"
    and t: "0 < niter" "niter < length A" "niter - 1 < length R"
    and sh: "square n (R ! (niter - 1))" "square n (A ! (niter - 1))" "square n (A ! niter)"
  shows "a_entry (int n) (int niter) R damp i k A =
           Inr (A[niter := (A ! niter)[i := (A ! niter ! i)[k :=
                  damp * availability_term (R ! (niter - 1)) n i k
                  + (1 - damp) * A ! (niter - 1) ! i ! k]]])"
proof -
  let ?r = "R ! (niter - 1)"
  let ?col = "map (\<lambda>row. row ! k) ?r"
  have idx: "int niter - 1 = int (niter - 1)" using t(1) by simp
  have tA: "niter - 1 < length A" using t(2) by simp
  have col: "column R (int (niter - 1)) (int k) = Inr ?col"
    using t(3) sh(1) ik(2) by (rule column_square)
  have lcol: "length ?col = n" using sh(1) by (simp add: square_length)
  have ncol: "\<And>j. j < n \<Longrightarrow> ?col ! j = ?r ! j ! k"
    using sh(1) by (simp add: square_length)
  have sums: "\<And>P. sum_list (map (\<lambda>j. max 0 (?col ! j)) (filter P [0..<n]))
                 = sum_list (map (\<lambda>j. max 0 (?r ! j ! k)) (filter P [0..<n]))"
    by (rule arg_cong [where f = sum_list], rule map_cong) (use ncol in auto)
  have rkk: "item3 R (int (niter - 1)) (int k) (int k) = Inr (?r ! k ! k)"
    using t(3) sh(1) ik(2) ik(2) by (rule item3_square)
  have aprev: "item3 A (int (niter - 1)) (int i) (int k) = Inr (A ! (niter - 1) ! i ! k)"
    using tA sh(2) ik by (rule item3_square)
  have store: "\<And>v. set_item3 A (int niter) (int i) (int k) v
                 = Inr (A[niter := (A ! niter)[i := (A ! niter ! i)[k := v]]])"
    using t(2) sh(3) ik by (rule set_item3_square)
  show ?thesis
  proof (cases "i = k")
    case False
    let ?tv = "(replicate n (1 :: real))[k := 0, i := 0]"
    have ltv: "length ?tv = n" by simp
    have ntv: "\<And>j. j < n \<Longrightarrow> ?tv ! j = (if j \<noteq> i \<and> j \<noteq> k then 1 else 0)"
      using ik by (auto simp: nth_list_update)
    obtain tv' where tv': "mask_assign ?tv (map (\<lambda>x. x < 0) ?col) 0 = Inr tv'"
      "np_dot ?col tv' = Inr (sum_list (map (\<lambda>j. if ?col ! j < 0 then 0 else ?col ! j * ?tv ! j) [0..<n]))"
      using masked_dot [OF lcol ltv] by blast
    have dot: "np_dot ?col tv' = Inr (sum_list (map (\<lambda>j. max 0 (?r ! j ! k))
                  (filter (\<lambda>j. j \<noteq> i \<and> j \<noteq> k) [0..<n])))"
      using tv'(2) rectified_sum [of n ?tv "\<lambda>j. j \<noteq> i \<and> j \<noteq> k" ?col, OF ntv] sums by simp
    show ?thesis
      using False col tv'(1) dot rkk aprev store
      by (simp add: a_entry_def idx np_min_pair availability_term_def del: np_min.simps)
  next
    case True
    let ?tv = "(replicate n (1 :: real))[k := 0]"
    have ltv: "length ?tv = n" by simp
    have ntv: "\<And>j. j < n \<Longrightarrow> ?tv ! j = (if j \<noteq> k then 1 else 0)"
      by (simp add: nth_list_update)
    obtain tv' where tv': "mask_assign ?tv (map (\<lambda>x. x < 0) ?col) 0 = Inr tv'"
      "np_dot ?col tv' = Inr (sum_list (map (\<lambda>j. if ?col ! j < 0 then 0 else ?col ! j * ?tv ! j) [0..<n]))"
      using masked_dot [OF lcol ltv] by blast
    have dot: "np_dot ?col tv' = Inr (sum_list (map (\<lambda>j. max 0 (?r ! j ! k))
                  (filter (\<lambda>j. j \<noteq> k) [0..<n])))"
      using tv'(2) rectified_sum [of n ?tv "\<lambda>j. j \<noteq> k" ?col, OF ntv] sums by simp
    show ?thesis
      using True col tv'(1) dot aprev store
      by (simp add: a_entry_def idx availability_term_def)
  qed
qed

text \<open>
  Claim C3. For an iteration \<open>niter \<ge> 1\<close> on \<open>n \<times> n\<close> slices, \<open>a_array_update\<close> returns the
  slice \<open>niter\<close> of the availability history after writing every entry \<open>(i, k)\<close> of it as
  \<open>damp_c\<close> times the availability update term of the responsibilities of iteration
  \<open>niter - 1\<close> plus \<open>1 - damp_c\<close> times the availability of iteration \<open>niter - 1\<close>; no other
  slice changes. The update term is clipped at 0 for \<open>i \<noteq> k\<close> and not clipped for
  \<open>i = k\<close>.
\<close>

theorem a_array_update_entries:
  assumes t: "0 < niter" "niter < length A" "niter - 1 < length R"
    and sh: "square n (R ! (niter - 1))" "square n (A ! (niter - 1))" "square n (A ! niter)"
  shows "\<exists>M. a_array_update (int n) (int niter) R damp A = Inr (M, A[niter := M])
    \<and> square n M
    \<and> (\<forall>i<n. \<forall>k<n. M ! i ! k =
          damp * availability_term (R ! (niter - 1)) n i k
          + (1 - damp) * A ! (niter - 1) ! i ! k)"
proof -
  define v where "v i k = damp * availability_term (R ! (niter - 1)) n i k
          + (1 - damp) * A ! (niter - 1) ! i ! k" for i k
  define base where "base B \<longleftrightarrow> length B = length A \<and> (\<forall>t. t \<noteq> niter \<longrightarrow> B ! t = A ! t)
          \<and> square n (B ! niter)" for B
  define outer where "outer i B \<longleftrightarrow> base B \<and> (\<forall>i'<i. \<forall>k'<n. B ! niter ! i' ! k' = v i' k')" for i B
  define inner where "inner i m B \<longleftrightarrow> outer i B \<and> (\<forall>k'<m. B ! niter ! i ! k' = v i k')" for i m B
  have entry: "\<exists>B'. a_entry (int n) (int niter) R damp i m B = Inr B' \<and> inner i (Suc m) B'"
    if "i < n" "m < n" "inner i m B" for i m B
  proof -
    from that(3) have b: "length B = length A" "\<forall>t. t \<noteq> niter \<longrightarrow> B ! t = A ! t" "square n (B ! niter)"
      and o: "\<forall>i'<i. \<forall>k'<n. B ! niter ! i' ! k' = v i' k'"
      and w: "\<forall>k'<m. B ! niter ! i ! k' = v i k'"
      by (simp_all add: inner_def outer_def base_def)
    have prev: "B ! (niter - 1) = A ! (niter - 1)" using b(2) t(1) by simp
    let ?B' = "B[niter := (B ! niter)[i := (B ! niter ! i)[m := v i m]]]"
    have run: "a_entry (int n) (int niter) R damp i m B = Inr ?B'"
      using a_entry_square [of i n m niter B R damp] that(1,2) t b(1,3) sh(1,2) prev
      by (simp add: v_def)
    have nB: "niter < length B" using b(1) t(2) by simp
    have li: "i < length (B ! niter)" "m < length (B ! niter ! i)"
      using b(3) that(1,2) by (simp_all add: square_iff)
    have slice: "?B' ! niter = (B ! niter)[i := (B ! niter ! i)[m := v i m]]" using nB by simp
    have "base ?B'"
      using b nB by (simp add: base_def square_update)
    moreover have "\<forall>i'<i. \<forall>k'<n. ?B' ! niter ! i' ! k' = v i' k'"
      using o li by (simp add: slice nth_list_update)
    moreover have "\<forall>k'<Suc m. ?B' ! niter ! i ! k' = v i k'"
      using w li by (simp add: slice nth_list_update less_Suc_eq)
    ultimately show ?thesis using run by (auto simp: inner_def outer_def)
  qed
  have row: "\<exists>B'. for_each [0..<n] (\<lambda>k. a_entry (int n) (int niter) R damp i k) B = Inr B'
                 \<and> outer (Suc i) B'"
    if "i < n" "outer i B" for i B
  proof -
    have "\<exists>B'. for_each [0..<n] (\<lambda>k. a_entry (int n) (int niter) R damp i k) B = Inr B'
                 \<and> inner i n B'"
      by (rule for_each_range [where I = "inner i"])
        (use that entry in \<open>auto simp: inner_def\<close>)
    then obtain B' where B': "for_each [0..<n] (\<lambda>k. a_entry (int n) (int niter) R damp i k) B = Inr B'"
      "inner i n B'" by blast
    have "outer (Suc i) B'"
      using B'(2) by (auto simp: inner_def outer_def less_Suc_eq)
    then show ?thesis using B'(1) by blast
  qed
  have "outer 0 A" using sh(3) by (simp add: outer_def base_def)
  then have "\<exists>B'. for_each [0..<n]
                 (\<lambda>i. for_each [0..<n] (\<lambda>k. a_entry (int n) (int niter) R damp i k)) A = Inr B'
               \<and> outer n B'"
    by (rule for_each_range [where I = outer]) (use row in blast)
  then obtain B' where B': "for_each [0..<n]
                 (\<lambda>i. for_each [0..<n] (\<lambda>k. a_entry (int n) (int niter) R damp i k)) A = Inr B'"
    and out: "outer n B'" by blast
  from out have b: "length B' = length A" "\<forall>t. t \<noteq> niter \<longrightarrow> B' ! t = A ! t" "square n (B' ! niter)"
    and e: "\<forall>i<n. \<forall>k<n. B' ! niter ! i ! k = v i k"
    by (simp_all add: outer_def base_def)
  have eq: "B' = A[niter := B' ! niter]"
  proof (rule nth_equalityI)
    show "length B' = length (A[niter := B' ! niter])" using b(1) by simp
    fix t assume "t < length B'"
    then show "B' ! t = A[niter := B' ! niter] ! t"
      using b(1,2) by (cases "t = niter") simp_all
  qed
  have "item B' (int niter) = Inr (B' ! niter)"
    using b(1) t(2) by (simp add: item_nat)
  then have "a_array_update (int n) (int niter) R damp A = Inr (B' ! niter, B')"
    using B' by (simp add: a_array_update_def)
  then have "a_array_update (int n) (int niter) R damp A = Inr (B' ! niter, A[niter := B' ! niter])"
    using eq by simp
  then show ?thesis using b(3) e by (auto simp: v_def)
qed

text \<open>
  Three points, \<open>damp_c = 1 / 2\<close>, all previous availabilities 2. Entry \<open>(0, 1)\<close> is clipped:
  \<open>min(0, - 5 + 3) = - 2\<close>; entry \<open>(1, 1)\<close> is the unclipped sum 3.
\<close>

theorem a_array_update_entries_witness:
  "\<exists>M. a_array_update 3 1 [[[1, - 2, 0], [0, - 5, 0], [0, 3, 1]], zeros2 3 3] (1 / 2)
          [[[2, 2, 2], [2, 2, 2], [2, 2, 2]], zeros2 3 3]
        = Inr (M, [[[2, 2, 2], [2, 2, 2], [2, 2, 2]], M])
      \<and> M ! 0 ! 1 = 0 \<and> M ! 1 ! 1 = 5 / 2"
proof -
  let ?R = "[[[1, - 2, 0], [0, - 5, 0], [0, 3, 1]], zeros2 3 3] :: array3"
  let ?A = "[[[2, 2, 2], [2, 2, 2], [2, 2, 2]], zeros2 3 3] :: array3"
  have h: "0 < (1 :: nat)" "1 < length ?A" "1 - 1 < length ?R"
    "square 3 (?R ! (1 - 1))" "square 3 (?A ! (1 - 1))" "square 3 (?A ! 1)"
    by (simp_all add: square_def zeros2_def)
  have t01: "availability_term (?R ! (1 - 1)) 3 0 1 = - 2"
    and t11: "availability_term (?R ! (1 - 1)) 3 1 1 = 3"
    by code_simp+
  from a_array_update_entries [OF h, of "1 / 2"] obtain M where
    M: "a_array_update (int 3) (int 1) ?R (1 / 2) ?A = Inr (M, ?A[1 := M])"
    and ent: "\<forall>i<3. \<forall>k<3. M ! i ! k =
          1 / 2 * availability_term (?R ! (1 - 1)) 3 i k + (1 - 1 / 2) * ?A ! (1 - 1) ! i ! k"
    by blast
  have "M ! 0 ! 1 = 0" "M ! 1 ! 1 = 5 / 2"
    using ent t01 t11 by simp_all
  then show ?thesis using M by simp
qed

section \<open>Properties of \<open>r_array_update\<close>\<close>

lemma square_same_shape: "square n a \<Longrightarrow> square n b \<Longrightarrow> same_shape a b"
  by (simp add: square_iff same_shape_iff)

lemma square_map2:
  assumes "square n a" "square n b"
  shows "square n (map2 (map2 f) a b)"
  using assms by (simp add: square_iff)

lemma square_map2_nth:
  assumes "square n a" "square n b" "i < n" "k < n"
  shows "map2 (map2 f) a b ! i ! k = f (a ! i ! k) (b ! i ! k)"
  using assms by (simp add: square_iff)

lemma elementwise_square:
  assumes "square n a" "square n b"
  shows "elementwise f a b = Inr (map2 (map2 f) a b)"
  using assms by (simp add: elementwise_Inr square_same_shape)

lemma square_zeros2: "square n (zeros2 n n)"
  by (simp add: square_def zeros2_def)

lemma set_item_square:
  assumes "t < length arr" "square n (arr ! t)" "square n m"
  shows "set_item arr (int t) m = Inr (arr[t := m])"
  using assms by (simp add: set_item_def norm_index_nat square_same_shape)

lemma set_other_columns:
  "set (map f (filter (\<lambda>k. k \<noteq> c) [0..<n])) = f ` ({0..<n} - {c})"
  by auto

lemma row_max_column_square:
  assumes n: "2 \<le> n" and c: "c < n" and sa: "square n sa" and rm: "square n rm"
  shows "row_max_column sa n c rm =
           Inr (map2 (\<lambda>row x. row[c := x]) rm
                  (map (\<lambda>row. Max ((\<lambda>k. row ! k) ` ({0..<n} - {c}))) sa))"
proof -
  let ?sub = "map (\<lambda>row. map (\<lambda>k. row ! k) (filter (\<lambda>k. k \<noteq> c) [0..<n])) sa"
  have ne: "?sub \<noteq> []" using sa n by (auto simp: square_iff)
  have "\<exists>c'. c' < n \<and> c' \<noteq> c"
  proof (cases "c = 0")
    case True
    then show ?thesis using n by (intro exI [of _ 1]) simp
  next
    case False
    then show ?thesis using n by (intro exI [of _ 0]) simp
  qed
  then obtain c' where c': "c' < n" "c' \<noteq> c" by blast
  have rows: "\<And>row. row \<in> set ?sub \<Longrightarrow> np_max row = Inr (Max (set row))"
  proof -
    fix row assume "row \<in> set ?sub"
    then obtain r where "row = map (\<lambda>k. r ! k) (filter (\<lambda>k. k \<noteq> c) [0..<n])" by auto
    moreover have "c' \<in> set (filter (\<lambda>k. k \<noteq> c) [0..<n])" using c' by simp
    ultimately have "row \<noteq> []" by (metis empty_iff list.set(1) map_is_Nil_conv)
    then show "np_max row = Inr (Max (set row))" by (rule np_max_Max)
  qed
  have "axis1 np_max ?sub = Inr (map (\<lambda>row. Max (set row)) ?sub)"
    using ne rows by (rule axis1_map)
  also have "map (\<lambda>row. Max (set row)) ?sub
             = map (\<lambda>row. Max ((\<lambda>k. row ! k) ` ({0..<n} - {c}))) sa"
    by (simp add: o_def set_other_columns del: set_map set_filter)
  finally have ax: "axis1 np_max ?sub = Inr (map (\<lambda>row. Max ((\<lambda>k. row ! k) ` ({0..<n} - {c}))) sa)" .
  have "length (map (\<lambda>row. Max ((\<lambda>k. row ! k) ` ({0..<n} - {c}))) sa) = length rm"
    using sa rm by (simp add: square_iff)
  then show ?thesis using ax by (simp add: row_max_column_def set_column_def)
qed

lemma row_max_loop:
  assumes n: "2 \<le> n" and sa: "square n sa"
  shows "\<exists>rm. for_each [0..<n] (row_max_column sa n) (zeros2 n n) = Inr rm \<and> square n rm
    \<and> (\<forall>i<n. \<forall>k<n. rm ! i ! k = Max ((\<lambda>k'. sa ! i ! k') ` ({0..<n} - {k})))"
proof -
  define inv where "inv m rm \<longleftrightarrow> square n rm
    \<and> (\<forall>i<n. \<forall>k<m. rm ! i ! k = Max ((\<lambda>k'. sa ! i ! k') ` ({0..<n} - {k})))" for m rm
  have step: "\<exists>rm'. row_max_column sa n c rm = Inr rm' \<and> inv (Suc c) rm'"
    if "c < n" "inv c rm" for c rm
  proof -
    from that(2) have rm: "square n rm"
      and e: "\<forall>i<n. \<forall>k<c. rm ! i ! k = Max ((\<lambda>k'. sa ! i ! k') ` ({0..<n} - {k}))"
      by (simp_all add: inv_def)
    let ?v = "map (\<lambda>row. Max ((\<lambda>k. row ! k) ` ({0..<n} - {c}))) sa"
    let ?rm' = "map2 (\<lambda>row x. row[c := x]) rm ?v"
    have run: "row_max_column sa n c rm = Inr ?rm'"
      using n that(1) sa rm by (rule row_max_column_square)
    have l: "length rm = n" "length sa = n" "\<forall>i<n. length (rm ! i) = n"
      using rm sa by (simp_all add: square_iff)
    have nth: "\<And>i. i < n \<Longrightarrow> ?rm' ! i = (rm ! i)[c := Max ((\<lambda>k. sa ! i ! k) ` ({0..<n} - {c}))]"
      using l by simp
    have "square n ?rm'" using l by (simp add: square_iff)
    moreover have "\<forall>i<n. \<forall>k<Suc c. ?rm' ! i ! k = Max ((\<lambda>k'. sa ! i ! k') ` ({0..<n} - {k}))"
    proof (intro allI impI)
      fix i k assume ik: "i < n" "k < Suc c"
      show "?rm' ! i ! k = Max ((\<lambda>k'. sa ! i ! k') ` ({0..<n} - {k}))"
      proof (cases "k = c")
        case True
        then show ?thesis using nth [OF ik(1)] l(3) ik(1) that(1) by simp
      next
        case False
        then have "k < c" using ik(2) by simp
        then show ?thesis using nth [OF ik(1)] e ik(1) False by simp
      qed
    qed
    ultimately show ?thesis using run by (auto simp: inv_def)
  qed
  have "inv 0 (zeros2 n n)" by (simp add: inv_def square_zeros2)
  then have "\<exists>rm. for_each [0..<n] (row_max_column sa n) (zeros2 n n) = Inr rm \<and> inv n rm"
    by (rule for_each_range [where I = inv]) (use step in blast)
  then show ?thesis by (auto simp: inv_def)
qed

text \<open>
  Claim C4. For an iteration \<open>niter \<ge> 1\<close> on \<open>n \<times> n\<close> arrays with \<open>n \<ge> 2\<close>,
  \<open>r_array_update\<close> stores as slice \<open>niter\<close> of the responsibility history, and returns,
  the matrix whose entry \<open>(i, k)\<close> is \<open>damp_c\<close> times the responsibility update term plus
  \<open>1 - damp_c\<close> times the responsibility of iteration \<open>niter - 1\<close>. The update term is
  \<open>S[i,k]\<close> minus the maximum over \<open>k' \<noteq> k\<close> of \<open>S[i,k'] + A[i,k']\<close>, with \<open>A\<close> the slice
  \<open>niter\<close> of the availability history.
\<close>

theorem r_array_update_entries:
  assumes t: "0 < niter" "niter < length A" "niter < length R"
    and sh: "square n (A ! niter)" "square n S" "square n (R ! (niter - 1))" "square n (R ! niter)"
    and n: "2 \<le> n"
  shows "\<exists>M. r_array_update (int niter) A S damp R = Inr (M, R[niter := M])
    \<and> square n M
    \<and> (\<forall>i<n. \<forall>k<n. M ! i ! k =
          damp * responsibility_term S (A ! niter) n i k
          + (1 - damp) * R ! (niter - 1) ! i ! k)"
proof -
  let ?a = "A ! niter"
  let ?sa = "map2 (map2 (+)) ?a S"
  have idx: "int niter - 1 = int (niter - 1)" using t(1) by simp
  have tR: "niter - 1 < length R" using t(3) by simp
  have sa: "square n ?sa" using sh(1,2) by (rule square_map2)
  have sa_nth: "\<And>i k. i < n \<Longrightarrow> k < n \<Longrightarrow> ?sa ! i ! k = ?a ! i ! k + S ! i ! k"
    using sh(1,2) by (rule square_map2_nth)
  have n0: "0 < n" using n by simp
  obtain rm where rm: "for_each [0..<n] (row_max_column ?sa n) (zeros2 n n) = Inr rm"
    "square n rm" "\<forall>i<n. \<forall>k<n. rm ! i ! k = Max ((\<lambda>k'. ?sa ! i ! k') ` ({0..<n} - {k}))"
    using row_max_loop [OF n sa] by blast
  let ?u = "map2 (map2 (-)) S rm"
  let ?M = "map2 (map2 (\<lambda>u r. damp * u + (1 - damp) * r)) ?u (R ! (niter - 1))"
  have u: "square n ?u" using sh(2) rm(2) by (rule square_map2)
  have M: "square n ?M" using u sh(3) by (rule square_map2)
  have s1: "item A (int niter) = Inr ?a" using t(2) by (rule item_nat)
  have s2: "elementwise (+) ?a S = Inr ?sa" using sh(1,2) by (rule elementwise_square)
  have s3: "ncols ?sa = n" using sa n0 by (rule square_ncols)
  have s5: "elementwise (-) S rm = Inr ?u" using sh(2) rm(2) by (rule elementwise_square)
  have s6: "item R (int niter - 1) = Inr (R ! (niter - 1))"
    unfolding idx using tR by (rule item_nat)
  have s7: "elementwise (\<lambda>u r. damp * u + (1 - damp) * r) ?u (R ! (niter - 1)) = Inr ?M"
    using u sh(3) by (rule elementwise_square)
  have s8: "set_item R (int niter) ?M = Inr (R[niter := ?M])"
    using t(3) sh(4) M by (rule set_item_square)
  have s9: "item (R[niter := ?M]) (int niter) = Inr ?M"
    using item_nat [of niter "R[niter := ?M]"] t(3) by simp
  have run: "r_array_update (int niter) A S damp R = Inr (?M, R[niter := ?M])"
    unfolding r_array_update_def
    by (simp only: s1 and_then_Inr s2 Let_def s3 rm(1) s5 s6 s7 s8 s9)
  have "\<forall>i<n. \<forall>k<n. ?M ! i ! k =
          damp * responsibility_term S ?a n i k + (1 - damp) * R ! (niter - 1) ! i ! k"
  proof (intro allI impI)
    fix i k assume ik: "i < n" "k < n"
    have "(\<lambda>k'. ?sa ! i ! k') ` ({0..<n} - {k}) = (\<lambda>k'. S ! i ! k' + ?a ! i ! k') ` ({0..<n} - {k})"
      by (rule image_cong) (use sa_nth ik(1) in \<open>auto simp: add.commute\<close>)
    then have "rm ! i ! k = Max ((\<lambda>k'. S ! i ! k' + ?a ! i ! k') ` ({0..<n} - {k}))"
      using rm(3) ik by simp
    moreover have "?u ! i ! k = S ! i ! k - rm ! i ! k"
      using sh(2) rm(2) ik by (rule square_map2_nth)
    moreover have "?M ! i ! k = damp * ?u ! i ! k + (1 - damp) * R ! (niter - 1) ! i ! k"
      using u sh(3) ik by (rule square_map2_nth)
    ultimately show "?M ! i ! k =
          damp * responsibility_term S ?a n i k + (1 - damp) * R ! (niter - 1) ! i ! k"
      by (simp add: responsibility_term_def)
  qed
  then show ?thesis using run M by blast
qed

text \<open>
  Three points, \<open>damp_c = 1 / 2\<close>. In row 0 the competitors of column 0 score
  \<open>- 1 + 0\<close> and \<open>- 4 + 1\<close>, those of column 2 score \<open>- 2 + 3\<close> and \<open>- 1 + 0\<close>.
\<close>

theorem r_array_update_entries_witness:
  "\<exists>M. r_array_update 1 [zeros2 3 3, [[3, 0, 1], [0, 0, 0], [0, 0, 0]]]
          [[- 2, - 1, - 4], [- 1, - 2, - 1], [- 4, - 1, - 2]] (1 / 2)
          [[[4, 4, 4], [4, 4, 4], [4, 4, 4]], zeros2 3 3]
        = Inr (M, [[[4, 4, 4], [4, 4, 4], [4, 4, 4]], M])
      \<and> M ! 0 ! 0 = 3 / 2 \<and> M ! 0 ! 2 = - 1 / 2"
proof -
  let ?A = "[zeros2 3 3, [[3, 0, 1], [0, 0, 0], [0, 0, 0]]] :: array3"
  let ?S = "[[- 2, - 1, - 4], [- 1, - 2, - 1], [- 4, - 1, - 2]] :: matrix"
  let ?R = "[[[4, 4, 4], [4, 4, 4], [4, 4, 4]], zeros2 3 3] :: array3"
  have h: "0 < (1 :: nat)" "1 < length ?A" "1 < length ?R"
    "square 3 (?A ! 1)" "square 3 ?S" "square 3 (?R ! (1 - 1))" "square 3 (?R ! 1)" "2 \<le> (3 :: nat)"
    by (simp_all add: square_def zeros2_def)
  have s0: "{0..<3} - {0} = {1, 2 :: nat}" and s2: "{0..<3} - {2} = {0, 1 :: nat}" by auto
  have t00: "responsibility_term ?S (?A ! 1) 3 0 0 = - 1"
    and t02: "responsibility_term ?S (?A ! 1) 3 0 2 = - 5"
    by (simp_all add: responsibility_term_def s0 s2)
  from r_array_update_entries [OF h, of "1 / 2"] obtain M where
    M: "r_array_update (int 1) ?A ?S (1 / 2) ?R = Inr (M, ?R[1 := M])"
    and ent: "\<forall>i<3. \<forall>k<3. M ! i ! k =
          1 / 2 * responsibility_term ?S (?A ! 1) 3 i k + (1 - 1 / 2) * ?R ! (1 - 1) ! i ! k"
    by blast
  have "M ! 0 ! 0 = 3 / 2" "M ! 0 ! 2 = - 1 / 2"
    using ent t00 t02 by simp_all
  then show ?thesis using M by simp
qed

text \<open>
  A single point: the maximum over the other columns has nothing to range over, and
  \<open>r_array_update\<close> raises.
\<close>

lemma r_array_update_single_point:
  "r_array_update 1 [[[0]], [[a]]] [[s]] d [[[r]], [[0]]]
     = Inl (ValueError ''zero-size array to reduction operation maximum which has no identity'')"
  by (simp add: r_array_update_def item_def norm_index_def elementwise_def same_shape_def
      ncols_def row_max_column_def axis1_def and_then_def)

end
